theory Spec2Isabelle
  imports Complex_Main "HOL-Library.Word" "HOL-Library.List_Lexorder"
begin

section \<open>Platform values: bytes, numbers in template literals, base64\<close>

text \<open>
  A \<open>Uint8Array\<close> (and a Node \<open>Buffer\<close>) is a list of 8-bit words. JavaScript strings
  are modelled as \<open>string\<close>. Objects of the protocol library that the application only
  stores, serializes and compares (keys) are identified with their serialized bytes;
  the functions of the library that compute (records, sessions, ciphers) are parameters.
\<close>

type_synonym byte = "8 word"
type_synonym bytes = "byte list"

text \<open>A thrown \<open>new Error(message)\<close>.\<close>

datatype error = Error string

text \<open>
  \<open>Number_toString\<close> is the decimal rendering that a template literal gives a
  non-negative integer.
\<close>

definition digit_char :: "nat \<Rightarrow> char" where
  "digit_char d = char_of (d + 48)"

fun Number_toString :: "nat \<Rightarrow> string" where
  "Number_toString n =
     (if 10 \<le> n then Number_toString (n div 10) @ [digit_char (n mod 10)]
      else [digit_char n])"

declare Number_toString.simps [simp del]

text \<open>
  A JavaScript number is an IEEE 754 double. Those that the arithmetic of this program
  meets are finite and not negative: \<open>Number m e\<close> is the double \<open>m * 2^e\<close>, for a
  significand \<open>m\<close> below \<open>2^53\<close> and an exponent \<open>e\<close> from -1074 on.
  \<open>bit_length\<close> counts the binary digits of a natural number.
\<close>

datatype Number = Number (significand: nat) (exponent: int)

fun bit_length :: "nat \<Rightarrow> nat" where
  "bit_length n = (if n = 0 then 0 else Suc (bit_length (n div 2)))"

declare bit_length.simps [simp del]

text \<open>
  The double nearest to the exact value \<open>m * 2^e\<close>, a tie going to the even
  significand: the \<open>s\<close> lowest bits are dropped, so that 53 significant bits are left
  and the exponent is not below -1074 (the subnormal range), and the rest is rounded on
  what was dropped. Values from \<open>2^1024\<close> on, which round to \<open>Infinity\<close>, lie
  beyond what the program computes and have no case here.
\<close>

definition Number_round :: "nat \<Rightarrow> int \<Rightarrow> Number" where
  "Number_round m e =
     (let s = max (bit_length m - 53) (nat (- 1074 - e));
          q = m div 2 ^ s;
          r = m mod 2 ^ s
      in Number (if 2 ^ s < 2 * r \<or> (2 * r = 2 ^ s \<and> odd q) then q + 1 else q) (e + int s))"

text \<open>The operators \<open>*\<close> and \<open>+\<close>: the exact product and sum, rounded.\<close>

definition Number_times :: "Number \<Rightarrow> Number \<Rightarrow> Number" where
  "Number_times a b = Number_round (significand a * significand b) (exponent a + exponent b)"

definition Number_plus :: "Number \<Rightarrow> Number \<Rightarrow> Number" where
  "Number_plus a b =
     (let e = min (exponent a) (exponent b)
      in Number_round (significand a * 2 ^ nat (exponent a - e)
                       + significand b * 2 ^ nat (exponent b - e)) e)"

text \<open>\<open>Math.floor\<close>, which is exact.\<close>

definition Math_floor :: "Number \<Rightarrow> Number" where
  "Math_floor a =
     (if 0 \<le> exponent a then a else Number (significand a div 2 ^ nat (- exponent a)) 0)"

text \<open>
  Ids and timestamps are numbers with integral values and are kept as integers in the
  records below; \<open>Number_integer\<close> reads the integer that an integral number is.
\<close>

definition Number_integer :: "Number \<Rightarrow> int" where
  "Number_integer a =
     (if 0 \<le> exponent a then int (significand a) * 2 ^ nat (exponent a)
      else int (significand a div 2 ^ nat (- exponent a)))"

text \<open>
  What \<open>Math.random()\<close> can return: a double that is at least 0 and less than 1.
\<close>

definition is_Math_random_value :: "Number \<Rightarrow> bool" where
  "is_Math_random_value a \<longleftrightarrow>
     significand a < 2 ^ 53 \<and> - 1074 \<le> exponent a \<and> exponent a \<le> 0
       \<and> significand a < 2 ^ nat (- exponent a)"

text \<open>
  \<open>Buffer.from(bytes).toString('base64')\<close>: three bytes become four characters of the
  standard alphabet, the last group is padded with \<open>=\<close>.
\<close>

definition b64_char :: "nat \<Rightarrow> char" where
  "b64_char n =
     (if n < 26 then char_of (n + 65)
      else if n < 52 then char_of (n + 71)
      else if n < 62 then char_of (n - 4)
      else if n = 62 then CHR ''+'' else CHR ''/'')"

fun toBase64 :: "bytes \<Rightarrow> string" where
  "toBase64 [] = []"
| "toBase64 [a] =
     [b64_char (unat a div 4), b64_char ((unat a mod 4) * 16), CHR ''='', CHR ''='']"
| "toBase64 [a, b] =
     [b64_char (unat a div 4), b64_char ((unat a mod 4) * 16 + unat b div 16),
      b64_char ((unat b mod 16) * 4), CHR ''='']"
| "toBase64 (a # b # c # rest) =
     [b64_char (unat a div 4), b64_char ((unat a mod 4) * 16 + unat b div 16),
      b64_char ((unat b mod 16) * 4 + unat c div 64), b64_char (unat c mod 64)]
     @ toBase64 rest"

text \<open>
  \<open>Buffer.from(text, 'base64')\<close> never throws: decoding stops at the first \<open>=\<close>,
  characters outside the alphabet are skipped, the URL-safe \<open>-\<close> and \<open>_\<close> are
  accepted, and an incomplete last group yields the bytes it fully determines.
\<close>

definition b64_index :: "char \<Rightarrow> nat option" where
  "b64_index c =
     (let n = (of_char c :: nat) in
      if 65 \<le> n \<and> n \<le> 90 then Some (n - 65)
      else if 97 \<le> n \<and> n \<le> 122 then Some (n - 71)
      else if 48 \<le> n \<and> n \<le> 57 then Some (n + 4)
      else if c = CHR ''+'' \<or> c = CHR ''-'' then Some 62
      else if c = CHR ''/'' \<or> c = CHR ''_'' then Some 63
      else None)"

fun sextets_to_bytes :: "nat list \<Rightarrow> bytes" where
  "sextets_to_bytes (a # b # c # d # rest) =
     [of_nat (a * 4 + b div 16), of_nat ((b mod 16) * 16 + c div 4),
      of_nat ((c mod 4) * 64 + d)] @ sextets_to_bytes rest"
| "sextets_to_bytes [a, b, c] =
     [of_nat (a * 4 + b div 16), of_nat ((b mod 16) * 16 + c div 4)]"
| "sextets_to_bytes [a, b] = [of_nat (a * 4 + b div 16)]"
| "sextets_to_bytes _ = []"

definition fromBase64 :: "string \<Rightarrow> bytes" where
  "fromBase64 s =
     sextets_to_bytes (List.map_filter b64_index (takeWhile (\<lambda>c. c \<noteq> CHR ''='') s))"

section \<open>Library value objects\<close>

text \<open>
  \<open>PublicKey\<close>, \<open>PrivateKey\<close>, \<open>KEMPublicKey\<close> and \<open>KEMSecretKey\<close> are immutable
  values; \<open>serialize()\<close> reads the encoding and \<open>deserialize(bytes)\<close> wraps it. The
  library's \<open>deserialize\<close> throws on bytes that encode no key. The one place where the
  code catches that, the \<open>try\<close> of \<open>restoreSession\<close> around the \<open>deserialize\<close> of
  the stores, has its branch, decided by the library (see \<open>identityKeys_deserialize_error\<close>
  below); everywhere else the definitions say what a \<open>deserialize\<close> that returns
  returns.
\<close>

datatype PublicKey = PublicKey (PublicKey_serialize: bytes)
datatype PrivateKey = PrivateKey (PrivateKey_serialize: bytes)
datatype KEMPublicKey = KEMPublicKey (KEMPublicKey_serialize: bytes)
datatype KEMSecretKey = KEMSecretKey (KEMSecretKey_serialize: bytes)
datatype KEMKeyPair = KEMKeyPair (getPublicKey: KEMPublicKey) (getSecretKey: KEMSecretKey)

text \<open>\<open>ProtocolAddress.new(name, deviceId)\<close> with its readers \<open>name()\<close>, \<open>deviceId()\<close>.\<close>

datatype ProtocolAddress =
  ProtocolAddress_new (address_name: string) (address_deviceId: nat)

text \<open>The store index \<open>`${name.name()}::${name.deviceId()}`\<close>.\<close>

definition address_idx :: "ProtocolAddress \<Rightarrow> string" where
  "address_idx a = address_name a @ ''::'' @ Number_toString (address_deviceId a)"

datatype IdentityChange = NewOrUnchanged | ReplacedExisting

datatype CiphertextMessageType = Whisper | PreKey | SenderKey | Plaintext

text \<open>
  The records built by \<open>PreKeyRecord.new\<close>, \<open>SignedPreKeyRecord.new\<close> and
  \<open>KyberPreKeyRecord.new\<close> from their arguments (id, timestamp, keys, signature).
\<close>

datatype PreKeyRecord = PreKeyRecord_new nat PublicKey PrivateKey
datatype SignedPreKeyRecord = SignedPreKeyRecord_new nat int PublicKey PrivateKey bytes
datatype KyberPreKeyRecord =
  KyberPreKeyRecord_new (kyber_record_id: nat) (kyber_record_timestamp: int)
    (kyber_record_keyPair: KEMKeyPair) (kyber_record_signature: bytes)

section \<open>The five in-memory stores (store.ts)\<close>

text \<open>
  Each store holds a JavaScript \<open>Map\<close>; the maps are modelled as partial functions, a
  \<open>Record<string, string>\<close> or \<open>Record<number, string>\<close> likewise (the property
  names are the indices \<open>name::deviceId\<close> and the numeric ids that the stores build, and
  \<open>Number(key)\<close> reads a numeric id back). The library's encodings of records are
  parameters \<open>ser\<close> and \<open>de\<close> of the methods that use them; a method that mutates its
  store returns the new store.
\<close>

subsection \<open>InMemorySessionStore\<close>

type_synonym InMemorySessionStore = "string \<rightharpoonup> bytes"

definition InMemorySessionStore_new :: InMemorySessionStore where
  "InMemorySessionStore_new = Map.empty"

definition saveSession ::
  "('s \<Rightarrow> bytes) \<Rightarrow> InMemorySessionStore \<Rightarrow> ProtocolAddress \<Rightarrow> 's \<Rightarrow> InMemorySessionStore" where
  "saveSession ser st a r = st(address_idx a \<mapsto> ser r)"

definition getSession ::
  "(bytes \<Rightarrow> error + 's) \<Rightarrow> InMemorySessionStore \<Rightarrow> ProtocolAddress \<Rightarrow> error + 's option" where
  "getSession de st a =
     (case st (address_idx a) of
        Some serialized \<Rightarrow>
          (case de serialized of Inl e \<Rightarrow> Inl e | Inr r \<Rightarrow> Inr (Some r))
      | None \<Rightarrow> Inr None)"

fun getExistingSessions ::
  "(bytes \<Rightarrow> error + 's) \<Rightarrow> InMemorySessionStore \<Rightarrow> ProtocolAddress list \<Rightarrow> error + 's list" where
  "getExistingSessions de st [] = Inr []"
| "getExistingSessions de st (a # as) =
     (case st (address_idx a) of
        None \<Rightarrow> Inl (Error (''no session for '' @ address_idx a))
      | Some serialized \<Rightarrow>
          (case de serialized of
             Inl e \<Rightarrow> Inl e
           | Inr r \<Rightarrow>
               (case getExistingSessions de st as of
                  Inl e \<Rightarrow> Inl e
                | Inr rs \<Rightarrow> Inr (r # rs))))"

definition SessionStore_serialize :: "InMemorySessionStore \<Rightarrow> (string \<rightharpoonup> string)" where
  "SessionStore_serialize st = (\<lambda>key. map_option toBase64 (st key))"

text \<open>\<open>this.state.clear()\<close>, then one \<open>set\<close> for each entry of the data.\<close>

definition SessionStore_deserialize ::
  "InMemorySessionStore \<Rightarrow> (string \<rightharpoonup> string) \<Rightarrow> InMemorySessionStore" where
  "SessionStore_deserialize st data =
     (\<lambda>key. case data key of Some v \<Rightarrow> Some (fromBase64 v) | None \<Rightarrow> Map.empty key)"

subsection \<open>InMemoryIdentityKeyStore\<close>

record InMemoryIdentityKeyStore =
  idKeys :: "string \<rightharpoonup> PublicKey"
  localRegistrationId :: int
  identityKey :: PrivateKey

record SerializedIdentityStore =
  ser_identityKey :: string
  ser_registrationId :: int
  ser_identityKeys :: "string \<rightharpoonup> string"

definition InMemoryIdentityKeyStore_new :: "PrivateKey \<Rightarrow> int \<Rightarrow> InMemoryIdentityKeyStore" where
  "InMemoryIdentityKeyStore_new k r =
     \<lparr>idKeys = Map.empty, localRegistrationId = r, identityKey = k\<rparr>"

definition getIdentityKey :: "InMemoryIdentityKeyStore \<Rightarrow> PrivateKey" where
  "getIdentityKey st = identityKey st"

definition getLocalRegistrationId :: "InMemoryIdentityKeyStore \<Rightarrow> int" where
  "getLocalRegistrationId st = localRegistrationId st"

datatype Direction = Sending | Receiving

definition isTrustedIdentity ::
  "InMemoryIdentityKeyStore \<Rightarrow> ProtocolAddress \<Rightarrow> PublicKey \<Rightarrow> Direction \<Rightarrow> bool" where
  "isTrustedIdentity st a k d = True"

text \<open>
  \<open>currentBytes.every((byte, i) => byte === newBytes[i])\<close>: every byte of the first
  array equals the byte at the same index of the second; an index past the end of the
  second reads \<open>undefined\<close>, which equals no byte.
\<close>

fun every_byte_equal :: "bytes \<Rightarrow> bytes \<Rightarrow> bool" where
  "every_byte_equal [] newBytes = True"
| "every_byte_equal (b # bs) [] = False"
| "every_byte_equal (b # bs) (n # ns) = (b = n \<and> every_byte_equal bs ns)"

definition saveIdentity ::
  "InMemoryIdentityKeyStore \<Rightarrow> ProtocolAddress \<Rightarrow> PublicKey
     \<Rightarrow> IdentityChange \<times> InMemoryIdentityKeyStore" where
  "saveIdentity st a key =
     (let idx = address_idx a;
          currentKey = idKeys st idx;
          st' = st\<lparr>idKeys := (idKeys st)(idx \<mapsto> key)\<rparr>;
          changed =
            (case currentKey of
               None \<Rightarrow> True
             | Some cur \<Rightarrow>
                 \<not> every_byte_equal (PublicKey_serialize cur) (PublicKey_serialize key))
      in (if changed then ReplacedExisting else NewOrUnchanged, st'))"

definition getIdentity :: "InMemoryIdentityKeyStore \<Rightarrow> ProtocolAddress \<Rightarrow> PublicKey option" where
  "getIdentity st a = idKeys st (address_idx a)"

definition IdentityStore_serialize :: "InMemoryIdentityKeyStore \<Rightarrow> SerializedIdentityStore" where
  "IdentityStore_serialize st =
     \<lparr>ser_identityKey = toBase64 (PrivateKey_serialize (identityKey st)),
      ser_registrationId = localRegistrationId st,
      ser_identityKeys = (\<lambda>key. map_option (\<lambda>v. toBase64 (PublicKey_serialize v)) (idKeys st key))\<rparr>"

text \<open>
  The instance method: it clears and refills the map of remote identities and leaves
  \<open>identityKey\<close> and \<open>localRegistrationId\<close> as the constructor set them.
\<close>

definition IdentityStore_deserialize ::
  "InMemoryIdentityKeyStore \<Rightarrow> SerializedIdentityStore \<Rightarrow> InMemoryIdentityKeyStore" where
  "IdentityStore_deserialize st data =
     st\<lparr>idKeys :=
         (\<lambda>key. case ser_identityKeys data key of
                  Some v \<Rightarrow> Some (PublicKey (fromBase64 v))
                | None \<Rightarrow> Map.empty key)\<rparr>"

text \<open>The static factory: a new store from the data alone.\<close>

definition IdentityStore_deserialize_static :: "SerializedIdentityStore \<Rightarrow> InMemoryIdentityKeyStore" where
  "IdentityStore_deserialize_static data =
     (let store = InMemoryIdentityKeyStore_new
                    (PrivateKey (fromBase64 (ser_identityKey data))) (ser_registrationId data)
      in store\<lparr>idKeys :=
           (\<lambda>key. case ser_identityKeys data key of
                    Some v \<Rightarrow> Some (PublicKey (fromBase64 v))
                  | None \<Rightarrow> idKeys store key)\<rparr>)"

subsection \<open>InMemoryPreKeyStore, InMemorySignedPreKeyStore, InMemoryKyberPreKeyStore\<close>

type_synonym InMemoryPreKeyStore = "nat \<rightharpoonup> bytes"
type_synonym InMemorySignedPreKeyStore = "nat \<rightharpoonup> bytes"
type_synonym InMemoryKyberPreKeyStore = "nat \<rightharpoonup> bytes"

definition savePreKey ::
  "(PreKeyRecord \<Rightarrow> bytes) \<Rightarrow> InMemoryPreKeyStore \<Rightarrow> nat \<Rightarrow> PreKeyRecord \<Rightarrow> InMemoryPreKeyStore" where
  "savePreKey ser st i r = st(i \<mapsto> ser r)"

definition getPreKey ::
  "(bytes \<Rightarrow> error + PreKeyRecord) \<Rightarrow> InMemoryPreKeyStore \<Rightarrow> nat \<Rightarrow> error + PreKeyRecord" where
  "getPreKey de st i =
     (case st i of
        None \<Rightarrow> Inl (Error (''pre-key '' @ Number_toString i @ '' not found''))
      | Some r \<Rightarrow> de r)"

definition removePreKey :: "InMemoryPreKeyStore \<Rightarrow> nat \<Rightarrow> InMemoryPreKeyStore" where
  "removePreKey st i = st(i := None)"

definition saveSignedPreKey ::
  "(SignedPreKeyRecord \<Rightarrow> bytes) \<Rightarrow> InMemorySignedPreKeyStore \<Rightarrow> nat \<Rightarrow> SignedPreKeyRecord
     \<Rightarrow> InMemorySignedPreKeyStore" where
  "saveSignedPreKey ser st i r = st(i \<mapsto> ser r)"

definition getSignedPreKey ::
  "(bytes \<Rightarrow> error + SignedPreKeyRecord) \<Rightarrow> InMemorySignedPreKeyStore \<Rightarrow> nat
     \<Rightarrow> error + SignedPreKeyRecord" where
  "getSignedPreKey de st i =
     (case st i of
        None \<Rightarrow> Inl (Error (''signed pre-key '' @ Number_toString i @ '' not found''))
      | Some r \<Rightarrow> de r)"

definition saveKyberPreKey ::
  "(KyberPreKeyRecord \<Rightarrow> bytes) \<Rightarrow> InMemoryKyberPreKeyStore \<Rightarrow> nat \<Rightarrow> KyberPreKeyRecord
     \<Rightarrow> InMemoryKyberPreKeyStore" where
  "saveKyberPreKey ser st i r = st(i \<mapsto> ser r)"

definition getKyberPreKey ::
  "(bytes \<Rightarrow> error + KyberPreKeyRecord) \<Rightarrow> InMemoryKyberPreKeyStore \<Rightarrow> nat
     \<Rightarrow> error + KyberPreKeyRecord" where
  "getKyberPreKey de st i =
     (case st i of
        None \<Rightarrow> Inl (Error (''kyber pre-key '' @ Number_toString i @ '' not found''))
      | Some r \<Rightarrow> de r)"

definition markKyberPreKeyUsed ::
  "InMemoryKyberPreKeyStore \<Rightarrow> nat \<Rightarrow> nat \<Rightarrow> PublicKey \<Rightarrow> InMemoryKyberPreKeyStore" where
  "markKyberPreKeyUsed st kyberPreKeyId signedPreKeyId baseKey = st"

text \<open>
  The three numeric stores share one \<open>serialize\<close> and one \<open>deserialize\<close> body
  (\<open>Record<number, string>\<close>, keys read back with \<open>Number(key)\<close>).
\<close>

definition KeyStore_serialize :: "(nat \<rightharpoonup> bytes) \<Rightarrow> (nat \<rightharpoonup> string)" where
  "KeyStore_serialize st = (\<lambda>key. map_option toBase64 (st key))"

definition KeyStore_deserialize :: "(nat \<rightharpoonup> bytes) \<Rightarrow> (nat \<rightharpoonup> string) \<Rightarrow> (nat \<rightharpoonup> bytes)" where
  "KeyStore_deserialize st data =
     (\<lambda>key. case data key of Some v \<Rightarrow> Some (fromBase64 v) | None \<Rightarrow> Map.empty key)"

subsection \<open>SignalStores and SerializedStores\<close>

record SignalStores =
  session :: InMemorySessionStore
  identity :: InMemoryIdentityKeyStore
  preKey :: InMemoryPreKeyStore
  signedPreKey :: InMemorySignedPreKeyStore
  kyberPreKey :: InMemoryKyberPreKeyStore

record SerializedStores =
  ser_session :: "string \<rightharpoonup> string"
  ser_identity :: SerializedIdentityStore
  ser_preKey :: "nat \<rightharpoonup> string"
  ser_signedPreKey :: "nat \<rightharpoonup> string"
  ser_kyberPreKey :: "nat \<rightharpoonup> string"

section \<open>Identity bundles and durable data (types.ts)\<close>

record IdentityKeyPair =
  ikp_privateKey :: PrivateKey
  ikp_publicKey :: PublicKey

record PreKeyData =
  pk_id :: nat
  pk_publicKey :: PublicKey
  pk_privateKey :: PrivateKey

record SignedPreKeyData =
  spk_id :: nat
  spk_timestamp :: int
  spk_publicKey :: PublicKey
  spk_privateKey :: PrivateKey
  spk_signature :: bytes

record KyberPreKeyData =
  kpk_id :: nat
  kpk_timestamp :: int
  kpk_publicKey :: KEMPublicKey
  kpk_secretKey :: KEMSecretKey
  kpk_signature :: bytes

record IdentityBundle =
  registrationId :: int
  identityKeyPair :: IdentityKeyPair
  bundle_signedPreKey :: SignedPreKeyData
  preKeys :: "PreKeyData list"
  bundle_kyberPreKey :: KyberPreKeyData

record SerializedIdentityKeyPair =
  s_ikp_privateKey :: string
  s_ikp_publicKey :: string

record SerializedPreKey =
  s_pk_id :: nat
  s_pk_publicKey :: string
  s_pk_privateKey :: string

record SerializedSignedPreKey =
  s_spk_id :: nat
  s_spk_timestamp :: int
  s_spk_publicKey :: string
  s_spk_privateKey :: string
  s_spk_signature :: string

record SerializedKyberPreKey =
  s_kpk_id :: nat
  s_kpk_timestamp :: int
  s_kpk_publicKey :: string
  s_kpk_secretKey :: string
  s_kpk_signature :: string

record SerializedIdentityBundle =
  s_registrationId :: int
  s_identityKeyPair :: SerializedIdentityKeyPair
  s_signedPreKey :: SerializedSignedPreKey
  s_preKeys :: "SerializedPreKey list"
  s_kyberPreKey :: SerializedKyberPreKey

datatype Role = user | assistant

record ChatMessage =
  cm_id :: string
  cm_role :: Role
  cm_content :: string
  cm_timestamp :: int

record EncryptedMessageRecord =
  emr_id :: string
  emr_sender :: Role
  emr_ciphertext :: string
  emr_messageType :: CiphertextMessageType
  emr_timestamp :: int

record SessionData =
  version :: nat
  created :: int
  model :: string
  userIdentity :: SerializedIdentityBundle
  assistantIdentity :: SerializedIdentityBundle
  userStores :: SerializedStores
  assistantStores :: SerializedStores
  messages :: "EncryptedMessageRecord list"

section \<open>The runtime and the external collaborators\<close>

text \<open>
  What the code reads from its environment is an explicit state. \<open>Math.random()\<close> is the
  JavaScript engine's general-purpose generator; \<open>PrivateKey.generate()\<close> and
  \<open>KEMKeyPair.generate()\<close> draw from the protocol library's cryptographically secure
  generator. Each source is the sequence of values its successive calls return, with the
  number of calls made so far. The session file holds the data that \<open>JSON.stringify\<close>
  wrote; \<open>write_error\<close> gives the error that writing a path throws, if it throws.
\<close>

record runtime =
  Math_random_values :: "nat \<Rightarrow> Number"
  Math_random_calls :: nat
  Date_now_values :: "nat \<Rightarrow> int"
  Date_now_calls :: nat
  PrivateKey_generate_values :: "nat \<Rightarrow> PrivateKey"
  PrivateKey_generate_calls :: nat
  KEMKeyPair_generate_values :: "nat \<Rightarrow> KEMKeyPair"
  KEMKeyPair_generate_calls :: nat
  files :: "string \<rightharpoonup> SessionData"
  write_error :: "string \<Rightarrow> error option"
  console_errors :: "(string \<times> error option) list"

definition Math_random :: "runtime \<Rightarrow> Number \<times> runtime" where
  "Math_random rt =
     (Math_random_values rt (Math_random_calls rt),
      rt\<lparr>Math_random_calls := Suc (Math_random_calls rt)\<rparr>)"

definition Date_now :: "runtime \<Rightarrow> int \<times> runtime" where
  "Date_now rt =
     (Date_now_values rt (Date_now_calls rt), rt\<lparr>Date_now_calls := Suc (Date_now_calls rt)\<rparr>)"

definition PrivateKey_generate :: "runtime \<Rightarrow> PrivateKey \<times> runtime" where
  "PrivateKey_generate rt =
     (PrivateKey_generate_values rt (PrivateKey_generate_calls rt),
      rt\<lparr>PrivateKey_generate_calls := Suc (PrivateKey_generate_calls rt)\<rparr>)"

definition KEMKeyPair_generate :: "runtime \<Rightarrow> KEMKeyPair \<times> runtime" where
  "KEMKeyPair_generate rt =
     (KEMKeyPair_generate_values rt (KEMKeyPair_generate_calls rt),
      rt\<lparr>KEMKeyPair_generate_calls := Suc (KEMKeyPair_generate_calls rt)\<rparr>)"

definition console_error :: "string \<Rightarrow> error option \<Rightarrow> runtime \<Rightarrow> runtime" where
  "console_error msg err rt = rt\<lparr>console_errors := console_errors rt @ [(msg, err)]\<rparr>"

text \<open>
  A \<open>PreKeyBundle.new(...)\<close> with its eleven arguments, and the serialized form and type
  tag of a \<open>CiphertextMessage\<close>.
\<close>

datatype PreKeyBundle =
  PreKeyBundle_new (pkb_registrationId: int) (pkb_deviceId: nat)
    (pkb_preKeyId: nat) (pkb_preKeyPublic: PublicKey)
    (pkb_signedPreKeyId: nat) (pkb_signedPreKeyPublic: PublicKey) (pkb_signedPreKeySignature: bytes)
    (pkb_identityKey: PublicKey)
    (pkb_kyberPreKeyId: nat) (pkb_kyberPreKeyPublic: KEMPublicKey) (pkb_kyberPreKeySignature: bytes)

datatype CiphertextMessage =
  CiphertextMessage (CiphertextMessage_serialize: bytes) (CiphertextMessage_type: CiphertextMessageType)

text \<open>
  The functions of the protocol library, of the inference client and of the JavaScript
  engine that the application calls and does not define. A function that receives store
  objects takes their state and returns it as the call left it, also when it throws.
  \<open>identityKeys_deserialize_error\<close> is what \<open>PublicKey.deserialize\<close> does to the
  loop of \<open>InMemoryIdentityKeyStore.deserialize\<close> over a record of identity keys: the
  error thrown at the first entry whose bytes the library takes for no key, \<open>None\<close>
  when it takes every entry for a key.
\<close>

record ('pm, 'sm) externals =
  PrivateKey_getPublicKey :: "PrivateKey \<Rightarrow> PublicKey"
  PrivateKey_sign :: "PrivateKey \<Rightarrow> bytes \<Rightarrow> bytes"
  PreKeyRecord_serialize :: "PreKeyRecord \<Rightarrow> bytes"
  PreKeyRecord_deserialize :: "bytes \<Rightarrow> error + PreKeyRecord"
  SignedPreKeyRecord_serialize :: "SignedPreKeyRecord \<Rightarrow> bytes"
  SignedPreKeyRecord_deserialize :: "bytes \<Rightarrow> error + SignedPreKeyRecord"
  KyberPreKeyRecord_serialize :: "KyberPreKeyRecord \<Rightarrow> bytes"
  KyberPreKeyRecord_deserialize :: "bytes \<Rightarrow> error + KyberPreKeyRecord"
  processPreKeyBundle ::
    "PreKeyBundle \<Rightarrow> ProtocolAddress \<Rightarrow> InMemorySessionStore \<Rightarrow> InMemoryIdentityKeyStore
       \<Rightarrow> runtime
       \<Rightarrow> (error + unit) \<times> InMemorySessionStore \<times> InMemoryIdentityKeyStore \<times> runtime"
  signalEncrypt ::
    "bytes \<Rightarrow> ProtocolAddress \<Rightarrow> InMemorySessionStore \<Rightarrow> InMemoryIdentityKeyStore
       \<Rightarrow> runtime
       \<Rightarrow> (error + CiphertextMessage) \<times> InMemorySessionStore \<times> InMemoryIdentityKeyStore
           \<times> runtime"
  PreKeySignalMessage_deserialize :: "bytes \<Rightarrow> error + 'pm"
  SignalMessage_deserialize :: "bytes \<Rightarrow> error + 'sm"
  signalDecryptPreKey ::
    "'pm \<Rightarrow> ProtocolAddress \<Rightarrow> SignalStores \<Rightarrow> runtime
       \<Rightarrow> (error + bytes) \<times> SignalStores \<times> runtime"
  signalDecrypt ::
    "'sm \<Rightarrow> ProtocolAddress \<Rightarrow> InMemorySessionStore \<Rightarrow> InMemoryIdentityKeyStore
       \<Rightarrow> runtime
       \<Rightarrow> (error + bytes) \<times> InMemorySessionStore \<times> InMemoryIdentityKeyStore \<times> runtime"
  streamChat :: "string \<Rightarrow> ChatMessage list \<Rightarrow> runtime \<Rightarrow> (error + string list) \<times> runtime"
  String_trim :: "string \<Rightarrow> string"
  Number_toString36 :: "Number \<Rightarrow> string"
  identityKeys_deserialize_error :: "(string \<rightharpoonup> string) \<Rightarrow> error option"

text \<open>
  Text is its UTF-8 bytes: \<open>new TextEncoder().encode\<close> reads them and
  \<open>new TextDecoder().decode\<close> writes them back.
\<close>

definition TextEncoder_encode :: "string \<Rightarrow> bytes" where
  "TextEncoder_encode s = map of_char s"

definition TextDecoder_decode :: "bytes \<Rightarrow> string" where
  "TextDecoder_decode bs = map (\<lambda>b. char_of (unat b)) bs"

section \<open>Identity bundle management (identities.ts)\<close>

text \<open>
  \<open>Math.floor(Math.random() * 16380) + 1\<close>, in the arithmetic of doubles. The result
  is an integral number; the bundle holds it as an integer.
\<close>

definition generateRegistrationId :: "runtime \<Rightarrow> int \<times> runtime" where
  "generateRegistrationId rt =
     (case Math_random rt of
        (r, rt') \<Rightarrow>
          (Number_integer
             (Number_plus (Math_floor (Number_times r (Number 16380 0))) (Number 1 0)), rt'))"

text \<open>The loop \<open>for (let i = 1; i <= 10; i++)\<close> that fills \<open>preKeys\<close>.\<close>

function generatePreKeys ::
  "('pm, 'sm) externals \<Rightarrow> nat \<Rightarrow> PreKeyData list \<Rightarrow> runtime \<Rightarrow> PreKeyData list \<times> runtime" where
  "generatePreKeys X i acc rt =
     (if i \<le> 10 then
        (case PrivateKey_generate rt of
           (newKey, rt') \<Rightarrow>
             generatePreKeys X (i + 1)
               (acc @ [\<lparr>pk_id = i, pk_publicKey = PrivateKey_getPublicKey X newKey,
                        pk_privateKey = newKey\<rparr>]) rt')
      else (acc, rt))"
  by pat_completeness auto
termination
  by (relation "measure (\<lambda>(X, i, acc, rt). 11 - i)") auto

declare generatePreKeys.simps [simp del]

definition createIdentityBundle :: "('pm, 'sm) externals \<Rightarrow> runtime \<Rightarrow> IdentityBundle \<times> runtime" where
  "createIdentityBundle X rt0 =
     (case PrivateKey_generate rt0 of (identityKeyPair', rt1) \<Rightarrow>
      case generateRegistrationId rt1 of (registrationId', rt2) \<Rightarrow>
      let signedPreKeyId = 1 in
      case PrivateKey_generate rt2 of (signedPreKey', rt3) \<Rightarrow>
      let signedPreKeySignature =
            PrivateKey_sign X identityKeyPair'
              (PublicKey_serialize (PrivateKey_getPublicKey X signedPreKey')) in
      case generatePreKeys X 1 [] rt3 of (preKeys', rt4) \<Rightarrow>
      let kyberPreKeyId = 1 in
      case KEMKeyPair_generate rt4 of (kyberKeyPair, rt5) \<Rightarrow>
      let kyberPreKeySignature =
            PrivateKey_sign X identityKeyPair'
              (KEMPublicKey_serialize (getPublicKey kyberKeyPair)) in
      case Date_now rt5 of (now1, rt6) \<Rightarrow>
      case Date_now rt6 of (now2, rt7) \<Rightarrow>
      (\<lparr>registrationId = registrationId',
        identityKeyPair =
          \<lparr>ikp_privateKey = identityKeyPair',
           ikp_publicKey = PrivateKey_getPublicKey X identityKeyPair'\<rparr>,
        bundle_signedPreKey =
          \<lparr>spk_id = signedPreKeyId, spk_timestamp = now1,
           spk_publicKey = PrivateKey_getPublicKey X signedPreKey',
           spk_privateKey = signedPreKey', spk_signature = signedPreKeySignature\<rparr>,
        preKeys = preKeys',
        bundle_kyberPreKey =
          \<lparr>kpk_id = kyberPreKeyId, kpk_timestamp = now2,
           kpk_publicKey = getPublicKey kyberKeyPair, kpk_secretKey = getSecretKey kyberKeyPair,
           kpk_signature = kyberPreKeySignature\<rparr>\<rparr>, rt7))"

text \<open>The loop \<open>for (const preKey of bundle.preKeys)\<close> of \<open>populateStores\<close>.\<close>

fun savePreKeys ::
  "('pm, 'sm) externals \<Rightarrow> PreKeyData list \<Rightarrow> InMemoryPreKeyStore \<Rightarrow> InMemoryPreKeyStore" where
  "savePreKeys X [] st = st"
| "savePreKeys X (pk # rest) st =
     savePreKeys X rest
       (savePreKey (PreKeyRecord_serialize X) st (pk_id pk)
          (PreKeyRecord_new (pk_id pk) (pk_publicKey pk) (pk_privateKey pk)))"

definition populateStores ::
  "('pm, 'sm) externals \<Rightarrow> IdentityBundle \<Rightarrow> SignalStores \<Rightarrow> runtime \<Rightarrow> SignalStores \<times> runtime" where
  "populateStores X bundle stores rt =
     (let stores1 = stores\<lparr>preKey := savePreKeys X (preKeys bundle) (preKey stores)\<rparr>;
          stores2 = stores1\<lparr>signedPreKey :=
            saveSignedPreKey (SignedPreKeyRecord_serialize X) (signedPreKey stores1)
              (spk_id (bundle_signedPreKey bundle))
              (SignedPreKeyRecord_new
                 (spk_id (bundle_signedPreKey bundle))
                 (spk_timestamp (bundle_signedPreKey bundle))
                 (spk_publicKey (bundle_signedPreKey bundle))
                 (spk_privateKey (bundle_signedPreKey bundle))
                 (spk_signature (bundle_signedPreKey bundle)))\<rparr>
      in case KEMKeyPair_generate rt of
           (kyberKeyPair, rt') \<Rightarrow>
             let kyberPreKeyRecord =
                   KyberPreKeyRecord_new
                     (kpk_id (bundle_kyberPreKey bundle))
                     (kpk_timestamp (bundle_kyberPreKey bundle))
                     kyberKeyPair
                     (kpk_signature (bundle_kyberPreKey bundle))
             in (stores2\<lparr>kyberPreKey :=
                   saveKyberPreKey (KyberPreKeyRecord_serialize X) (kyberPreKey stores2)
                     (kpk_id (bundle_kyberPreKey bundle)) kyberPreKeyRecord\<rparr>, rt'))"

definition serializeIdentityBundle :: "IdentityBundle \<Rightarrow> SerializedIdentityBundle" where
  "serializeIdentityBundle bundle =
     \<lparr>s_registrationId = registrationId bundle,
      s_identityKeyPair =
        \<lparr>s_ikp_privateKey =
           toBase64 (PrivateKey_serialize (ikp_privateKey (identityKeyPair bundle))),
         s_ikp_publicKey =
           toBase64 (PublicKey_serialize (ikp_publicKey (identityKeyPair bundle)))\<rparr>,
      s_signedPreKey =
        \<lparr>s_spk_id = spk_id (bundle_signedPreKey bundle),
         s_spk_timestamp = spk_timestamp (bundle_signedPreKey bundle),
         s_spk_publicKey =
           toBase64 (PublicKey_serialize (spk_publicKey (bundle_signedPreKey bundle))),
         s_spk_privateKey =
           toBase64 (PrivateKey_serialize (spk_privateKey (bundle_signedPreKey bundle))),
         s_spk_signature = toBase64 (spk_signature (bundle_signedPreKey bundle))\<rparr>,
      s_preKeys =
        map (\<lambda>pk. \<lparr>s_pk_id = pk_id pk,
                     s_pk_publicKey = toBase64 (PublicKey_serialize (pk_publicKey pk)),
                     s_pk_privateKey = toBase64 (PrivateKey_serialize (pk_privateKey pk))\<rparr>)
          (preKeys bundle),
      s_kyberPreKey =
        \<lparr>s_kpk_id = kpk_id (bundle_kyberPreKey bundle),
         s_kpk_timestamp = kpk_timestamp (bundle_kyberPreKey bundle),
         s_kpk_publicKey =
           toBase64 (KEMPublicKey_serialize (kpk_publicKey (bundle_kyberPreKey bundle))),
         s_kpk_secretKey =
           toBase64 (KEMSecretKey_serialize (kpk_secretKey (bundle_kyberPreKey bundle))),
         s_kpk_signature = toBase64 (kpk_signature (bundle_kyberPreKey bundle))\<rparr>\<rparr>"

text \<open>
  The object literal is evaluated field by field: the first \<open>KEMKeyPair.generate()\<close>
  gives \<open>publicKey\<close>, a second one gives \<open>secretKey\<close>; the serialized
  \<open>publicKey\<close> and \<open>secretKey\<close> of the Kyber pre-key are not read.
\<close>

definition deserializeIdentityBundle ::
  "SerializedIdentityBundle \<Rightarrow> runtime \<Rightarrow> IdentityBundle \<times> runtime" where
  "deserializeIdentityBundle data rt =
     (case KEMKeyPair_generate rt of (pair1, rt1) \<Rightarrow>
      case KEMKeyPair_generate rt1 of (pair2, rt2) \<Rightarrow>
      (\<lparr>registrationId = s_registrationId data,
        identityKeyPair =
          \<lparr>ikp_privateKey = PrivateKey (fromBase64 (s_ikp_privateKey (s_identityKeyPair data))),
           ikp_publicKey = PublicKey (fromBase64 (s_ikp_publicKey (s_identityKeyPair data)))\<rparr>,
        bundle_signedPreKey =
          \<lparr>spk_id = s_spk_id (s_signedPreKey data),
           spk_timestamp = s_spk_timestamp (s_signedPreKey data),
           spk_publicKey = PublicKey (fromBase64 (s_spk_publicKey (s_signedPreKey data))),
           spk_privateKey = PrivateKey (fromBase64 (s_spk_privateKey (s_signedPreKey data))),
           spk_signature = fromBase64 (s_spk_signature (s_signedPreKey data))\<rparr>,
        preKeys =
          map (\<lambda>pk. \<lparr>pk_id = s_pk_id pk,
                       pk_publicKey = PublicKey (fromBase64 (s_pk_publicKey pk)),
                       pk_privateKey = PrivateKey (fromBase64 (s_pk_privateKey pk))\<rparr>)
            (s_preKeys data),
        bundle_kyberPreKey =
          \<lparr>kpk_id = s_kpk_id (s_kyberPreKey data),
           kpk_timestamp = s_kpk_timestamp (s_kyberPreKey data),
           kpk_publicKey = getPublicKey pair1,
           kpk_secretKey = getSecretKey pair2,
           kpk_signature = fromBase64 (s_kpk_signature (s_kyberPreKey data))\<rparr>\<rparr>, rt2))"

section \<open>Session establishment, encryption and decryption (session.ts)\<close>

record EncryptionResult =
  er_ciphertext :: bytes
  er_messageType :: CiphertextMessageType

text \<open>
  \<open>identity.preKeys[0]\<close> of an empty array is \<open>undefined\<close>, and reading \<open>.id\<close> of it
  throws a \<open>TypeError\<close>.
\<close>

definition buildPreKeyBundle :: "IdentityBundle \<Rightarrow> error + PreKeyBundle" where
  "buildPreKeyBundle ident =
     (case preKeys ident of
        [] \<Rightarrow> Inl (Error ''undefined is not an object'')
      | pk0 # _ \<Rightarrow>
          Inr (PreKeyBundle_new
                 (registrationId ident)
                 1
                 (pk_id pk0)
                 (pk_publicKey pk0)
                 (spk_id (bundle_signedPreKey ident))
                 (spk_publicKey (bundle_signedPreKey ident))
                 (spk_signature (bundle_signedPreKey ident))
                 (ikp_publicKey (identityKeyPair ident))
                 (kpk_id (bundle_kyberPreKey ident))
                 (kpk_publicKey (bundle_kyberPreKey ident))
                 (kpk_signature (bundle_kyberPreKey ident))))"

definition establishSession ::
  "('pm, 'sm) externals \<Rightarrow> IdentityBundle \<Rightarrow> IdentityBundle \<Rightarrow> SignalStores \<Rightarrow> SignalStores
     \<Rightarrow> runtime \<Rightarrow> (error + unit) \<times> SignalStores \<times> SignalStores \<times> runtime" where
  "establishSession X userIdent assistantIdent userSt assistantSt rt =
     (let userAddress = ProtocolAddress_new ''user'' 1;
          assistantAddress = ProtocolAddress_new ''assistant'' 1
      in case buildPreKeyBundle userIdent of
           Inl e \<Rightarrow> (Inl e, userSt, assistantSt, rt)
         | Inr userPreKeyBundle \<Rightarrow>
       (case buildPreKeyBundle assistantIdent of
           Inl e \<Rightarrow> (Inl e, userSt, assistantSt, rt)
         | Inr assistantPreKeyBundle \<Rightarrow>
       (case processPreKeyBundle X assistantPreKeyBundle assistantAddress
               (session userSt) (identity userSt) rt of
          (r1, uSess, uIdent, rt1) \<Rightarrow>
            let userSt' = userSt\<lparr>session := uSess, identity := uIdent\<rparr> in
            (case r1 of
               Inl e \<Rightarrow> (Inl e, userSt', assistantSt, rt1)
             | Inr _ \<Rightarrow>
                 (case processPreKeyBundle X userPreKeyBundle userAddress
                         (session assistantSt) (identity assistantSt) rt1 of
                    (r2, aSess, aIdent, rt2) \<Rightarrow>
                      (r2, userSt', assistantSt\<lparr>session := aSess, identity := aIdent\<rparr>, rt2))))))"

definition encryptMessage ::
  "('pm, 'sm) externals \<Rightarrow> string \<Rightarrow> string \<Rightarrow> SignalStores \<Rightarrow> runtime
     \<Rightarrow> (error + EncryptionResult) \<times> SignalStores \<times> runtime" where
  "encryptMessage X plaintext recipientName stores rt =
     (let address = ProtocolAddress_new recipientName 1;
          messageBytes = TextEncoder_encode plaintext
      in case signalEncrypt X messageBytes address (session stores) (identity stores) rt of
           (r, sess', ident', rt') \<Rightarrow>
             ((case r of
                 Inl e \<Rightarrow> Inl e
               | Inr ciphertext \<Rightarrow>
                   Inr \<lparr>er_ciphertext = CiphertextMessage_serialize ciphertext,
                        er_messageType = CiphertextMessage_type ciphertext\<rparr>),
              stores\<lparr>session := sess', identity := ident'\<rparr>, rt'))"

definition decryptMessage ::
  "('pm, 'sm) externals \<Rightarrow> bytes \<Rightarrow> CiphertextMessageType \<Rightarrow> string \<Rightarrow> SignalStores \<Rightarrow> runtime
     \<Rightarrow> (error + string) \<times> SignalStores \<times> runtime" where
  "decryptMessage X ciphertext messageType senderName stores rt =
     (let address = ProtocolAddress_new senderName 1
      in if messageType = PreKey then
           (case PreKeySignalMessage_deserialize X ciphertext of
              Inl e \<Rightarrow> (Inl e, stores, rt)
            | Inr preKeyMessage \<Rightarrow>
                (case signalDecryptPreKey X preKeyMessage address stores rt of
                   (r, stores', rt') \<Rightarrow>
                     ((case r of Inl e \<Rightarrow> Inl e | Inr plaintext \<Rightarrow> Inr (TextDecoder_decode plaintext)),
                      stores', rt')))
         else
           (case SignalMessage_deserialize X ciphertext of
              Inl e \<Rightarrow> (Inl e, stores, rt)
            | Inr signalMessage \<Rightarrow>
                (case signalDecrypt X signalMessage address (session stores) (identity stores) rt of
                   (r, sess', ident', rt') \<Rightarrow>
                     ((case r of Inl e \<Rightarrow> Inl e | Inr plaintext \<Rightarrow> Inr (TextDecoder_decode plaintext)),
                      stores\<lparr>session := sess', identity := ident'\<rparr>, rt'))))"

section \<open>Session persistence (storage.ts)\<close>

text \<open>
  \<open>loadSession\<close> and \<open>saveSession\<close> of storage.ts carry the prefix \<open>storage_\<close>,
  the session store has a method \<open>saveSession\<close> of its own.
\<close>

definition SESSION_FILE :: string where
  "SESSION_FILE = ''session.json''"

definition DEFAULT_MODEL :: string where
  "DEFAULT_MODEL = ''llama3.2''"

record SessionContext =
  ctx_sessionData :: SessionData
  ctx_userStores :: SignalStores
  ctx_assistantStores :: SignalStores

definition path_join :: "string \<Rightarrow> string \<Rightarrow> string" where
  "path_join dir file = dir @ ''/'' @ file"

definition storage_loadSession :: "string \<Rightarrow> runtime \<Rightarrow> SessionData option" where
  "storage_loadSession dataDir rt = files rt (path_join dataDir SESSION_FILE)"

definition storage_saveSession :: "string \<Rightarrow> SessionData \<Rightarrow> runtime \<Rightarrow> (error + unit) \<times> runtime" where
  "storage_saveSession dataDir data rt =
     (let sessionPath = path_join dataDir SESSION_FILE
      in case write_error rt sessionPath of
           Some e \<Rightarrow> (Inl e, rt)
         | None \<Rightarrow> (Inr (), rt\<lparr>files := (files rt)(sessionPath \<mapsto> data)\<rparr>))"

definition newStores :: "IdentityBundle \<Rightarrow> SignalStores" where
  "newStores ident =
     \<lparr>session = InMemorySessionStore_new,
      identity = InMemoryIdentityKeyStore_new
                   (ikp_privateKey (identityKeyPair ident)) (registrationId ident),
      preKey = Map.empty,
      signedPreKey = Map.empty,
      kyberPreKey = Map.empty\<rparr>"

definition serializeStores :: "SignalStores \<Rightarrow> SerializedStores" where
  "serializeStores stores =
     \<lparr>ser_session = SessionStore_serialize (session stores),
      ser_identity = IdentityStore_serialize (identity stores),
      ser_preKey = KeyStore_serialize (preKey stores),
      ser_signedPreKey = KeyStore_serialize (signedPreKey stores),
      ser_kyberPreKey = KeyStore_serialize (kyberPreKey stores)\<rparr>"

definition deserializeStores :: "SerializedStores \<Rightarrow> SignalStores \<Rightarrow> SignalStores" where
  "deserializeStores data stores =
     \<lparr>session = SessionStore_deserialize (session stores) (ser_session data),
      identity = IdentityStore_deserialize (identity stores) (ser_identity data),
      preKey = KeyStore_deserialize (preKey stores) (ser_preKey data),
      signedPreKey = KeyStore_deserialize (signedPreKey stores) (ser_signedPreKey data),
      kyberPreKey = KeyStore_deserialize (kyberPreKey stores) (ser_kyberPreKey data)\<rparr>"

text \<open>The parameter \<open>model\<close> has the default \<open>DEFAULT_MODEL\<close>: \<open>None\<close> is a call without it.\<close>

definition createNewSession ::
  "('pm, 'sm) externals \<Rightarrow> string \<Rightarrow> string option \<Rightarrow> runtime
     \<Rightarrow> (error + SessionContext) \<times> runtime" where
  "createNewSession X dataDir modelArg rt0 =
     (let modelName = (case modelArg of None \<Rightarrow> DEFAULT_MODEL | Some m \<Rightarrow> m) in
      case createIdentityBundle X rt0 of (userIdent, rt1) \<Rightarrow>
      case createIdentityBundle X rt1 of (assistantIdent, rt2) \<Rightarrow>
      case populateStores X userIdent (newStores userIdent) rt2 of (userSt0, rt3) \<Rightarrow>
      case populateStores X assistantIdent (newStores assistantIdent) rt3 of (assistantSt0, rt4) \<Rightarrow>
      case establishSession X userIdent assistantIdent userSt0 assistantSt0 rt4 of
        (r, userSt, assistantSt, rt5) \<Rightarrow>
          (case r of
             Inl e \<Rightarrow> (Inl e, rt5)
           | Inr _ \<Rightarrow>
               (case Date_now rt5 of
                  (now, rt6) \<Rightarrow>
                    let sessionData =
                          \<lparr>version = 1, created = now, model = modelName,
                           userIdentity = serializeIdentityBundle userIdent,
                           assistantIdentity = serializeIdentityBundle assistantIdent,
                           userStores = serializeStores userSt,
                           assistantStores = serializeStores assistantSt,
                           messages = []\<rparr>
                    in (case storage_saveSession dataDir sessionData rt6 of
                          (Inl e, rt7) \<Rightarrow> (Inl e, rt7)
                        | (Inr _, rt7) \<Rightarrow>
                            (Inr \<lparr>ctx_sessionData = sessionData, ctx_userStores = userSt,
                                  ctx_assistantStores = assistantSt\<rparr>, rt7)))))"

text \<open>
  Of the five \<open>deserialize\<close> methods that \<open>deserializeStores\<close> calls, four keep the
  decoded bytes as they are (a record is parsed when it is read); the identity store's
  parses every identity key, and throws what the library throws.
\<close>

definition deserializeStores_error :: "('pm, 'sm) externals \<Rightarrow> SerializedStores \<Rightarrow> error option" where
  "deserializeStores_error X data =
     identityKeys_deserialize_error X (ser_identityKeys (ser_identity data))"

text \<open>
  \<open>restoreSession\<close>: no session file gives \<open>null\<close>; an error thrown while the stores
  are deserialized is caught and logged, and gives \<open>null\<close> as well.
\<close>

definition restoreSession ::
  "('pm, 'sm) externals \<Rightarrow> string \<Rightarrow> runtime \<Rightarrow> SessionContext option \<times> runtime" where
  "restoreSession X dataDir rt0 =
     (case storage_loadSession dataDir rt0 of
        None \<Rightarrow> (None, rt0)
      | Some sessionData \<Rightarrow>
          (case deserializeIdentityBundle (userIdentity sessionData) rt0 of (userIdent, rt1) \<Rightarrow>
           case deserializeIdentityBundle (assistantIdentity sessionData) rt1 of
             (assistantIdent, rt2) \<Rightarrow>
               (case deserializeStores_error X (userStores sessionData) of
                  Some err \<Rightarrow>
                    (None,
                     console_error ''Failed to restore session stores, creating new session:''
                       (Some err) rt2)
                | None \<Rightarrow>
                    (case deserializeStores_error X (assistantStores sessionData) of
                       Some err \<Rightarrow>
                         (None,
                          console_error ''Failed to restore session stores, creating new session:''
                            (Some err) rt2)
                     | None \<Rightarrow>
                         (Some \<lparr>ctx_sessionData = sessionData,
                                ctx_userStores =
                                  deserializeStores (userStores sessionData) (newStores userIdent),
                                ctx_assistantStores =
                                  deserializeStores (assistantStores sessionData)
                                    (newStores assistantIdent)\<rparr>,
                          rt2)))))"

text \<open>
  \<open>updateSessionMessages\<close> assigns \<open>sessionData.userStores\<close> on the object it was
  given, so the caller's object changes too: the updated data is returned with the
  outcome of the write.
\<close>

definition updateSessionMessages ::
  "string \<Rightarrow> SessionData \<Rightarrow> SignalStores \<Rightarrow> runtime \<Rightarrow> (error + unit) \<times> SessionData \<times> runtime" where
  "updateSessionMessages dataDir sessionData stores rt =
     (let sessionData' = sessionData\<lparr>userStores := serializeStores stores\<rparr>
      in case storage_saveSession dataDir sessionData' rt of (r, rt') \<Rightarrow> (r, sessionData', rt'))"

definition resetSession ::
  "('pm, 'sm) externals \<Rightarrow> string \<Rightarrow> string option \<Rightarrow> runtime
     \<Rightarrow> (error + SessionContext) \<times> runtime" where
  "resetSession X dataDir modelArg rt =
     createNewSession X dataDir
       (Some (case modelArg of None \<Rightarrow> DEFAULT_MODEL | Some m \<Rightarrow> m)) rt"

section \<open>The chat view (chat-view.tsx)\<close>

text \<open>
  The React state of \<open>ChatView\<close>. The two store collections are created once and
  mutated in place by every encrypt and decrypt; they are part of the state here.
\<close>

record ChatView =
  cv_sessionData :: SessionData
  cv_userStores :: SignalStores
  cv_assistantStores :: SignalStores
  cv_messages :: "ChatMessage list"
  cv_isLoading :: bool
  cv_error :: "string option"
  cv_input :: string

definition ChatView_initial :: "SessionData \<Rightarrow> SignalStores \<Rightarrow> SignalStores \<Rightarrow> ChatView" where
  "ChatView_initial initialSessionData initialStores initialAssistantStores =
     \<lparr>cv_sessionData = initialSessionData,
      cv_userStores = initialStores,
      cv_assistantStores = initialAssistantStores,
      cv_messages = [],
      cv_isLoading = False,
      cv_error = None,
      cv_input = []\<rparr>"

text \<open>The same for \<open>Date.now()\<close>, an integer.\<close>

definition Integer_toString :: "int \<Rightarrow> string" where
  "Integer_toString i =
     (if 0 \<le> i then Number_toString (nat i) else CHR ''-'' # Number_toString (nat (- i)))"

definition generateId :: "('pm, 'sm) externals \<Rightarrow> runtime \<Rightarrow> string \<times> runtime" where
  "generateId X rt =
     (case Date_now rt of (now, rt1) \<Rightarrow>
      case Math_random rt1 of (r, rt2) \<Rightarrow>
        (Integer_toString now @ ''-'' @ take 9 (drop 2 (Number_toString36 X r)), rt2))"

text \<open>
  The loop of \<open>loadMessages\<close> over the persisted records: a record of the user is
  decrypted with the assistant's stores and the other way round; a failure is counted and
  logged and the loop goes on with the next record.
\<close>

fun decryptRecords ::
  "('pm, 'sm) externals \<Rightarrow> EncryptedMessageRecord list \<Rightarrow> ChatMessage list \<Rightarrow> nat
     \<Rightarrow> SignalStores \<Rightarrow> SignalStores \<Rightarrow> runtime
     \<Rightarrow> ChatMessage list \<times> nat \<times> SignalStores \<times> SignalStores \<times> runtime" where
  "decryptRecords X [] decrypted failedCount userSt assistantSt rt =
     (decrypted, failedCount, userSt, assistantSt, rt)"
| "decryptRecords X (r # rest) decrypted failedCount userSt assistantSt rt =
     (let stores = (if emr_sender r = user then assistantSt else userSt);
          senderName = (if emr_sender r = user then ''user'' else ''assistant'')
      in case decryptMessage X (fromBase64 (emr_ciphertext r)) (emr_messageType r)
                senderName stores rt of
           (res, stores', rt') \<Rightarrow>
             let userSt' = (if emr_sender r = user then userSt else stores');
                 assistantSt' = (if emr_sender r = user then stores' else assistantSt)
             in (case res of
                   Inr plaintext \<Rightarrow>
                     decryptRecords X rest
                       (decrypted @ [\<lparr>cm_id = emr_id r, cm_role = emr_sender r,
                                      cm_content = plaintext, cm_timestamp = emr_timestamp r\<rparr>])
                       failedCount userSt' assistantSt' rt'
                 | Inl err \<Rightarrow>
                     decryptRecords X rest decrypted (failedCount + 1) userSt' assistantSt'
                       (console_error ''Failed to decrypt message:'' (Some err) rt')))"

text \<open>
  \<open>loadMessages\<close>, with the props \<open>dataDir\<close> and \<open>model\<close>. The result is \<open>Inl\<close> when
  the promise is rejected: nothing catches an error of \<open>updateSessionMessages\<close>, and
  \<open>setError\<close> and \<open>setMessages\<close> after it do not run.
\<close>

definition loadMessages ::
  "('pm, 'sm) externals \<Rightarrow> string \<Rightarrow> string \<Rightarrow> ChatView \<Rightarrow> runtime
     \<Rightarrow> (error + unit) \<times> ChatView \<times> runtime" where
  "loadMessages X dataDir modelProp v rt =
     (case decryptRecords X (messages (cv_sessionData v)) [] 0
             (cv_userStores v) (cv_assistantStores v) rt of
        (decrypted, failedCount, userSt, assistantSt, rt1) \<Rightarrow>
          let v1 = v\<lparr>cv_userStores := userSt, cv_assistantStores := assistantSt\<rparr>
          in if failedCount > 0 \<and> length decrypted = 0
                \<and> length (messages (cv_sessionData v)) > 0
             then
               (let rt2 = console_error ''Session appears corrupted, clearing message history''
                            None rt1;
                    updatedSessionData = (cv_sessionData v)\<lparr>model := modelProp, messages := []\<rparr>
                in case updateSessionMessages dataDir updatedSessionData userSt rt2 of
                     (Inl e, sessionData', rt3) \<Rightarrow>
                       (Inl e, v1\<lparr>cv_sessionData := sessionData'\<rparr>, rt3)
                   | (Inr _, sessionData', rt3) \<Rightarrow>
                       (Inr (),
                        v1\<lparr>cv_sessionData := sessionData',
                           cv_error :=
                             Some ''Session corrupted. Message history cleared. Starting fresh.'',
                           cv_messages := decrypted\<rparr>,
                        rt3))
             else (Inr (), v1\<lparr>cv_messages := decrypted\<rparr>, rt1))"

definition error_message :: "error \<Rightarrow> string" where
  "error_message e = (case e of Error m \<Rightarrow> m)"

text \<open>
  \<open>handleSubmit\<close>: every error thrown inside the \<open>try\<close> ends in \<open>setError\<close>, and
  \<open>finally\<close> clears the loading flag. The stores keep what the calls made before the
  error did to them.
\<close>

definition handleSubmit ::
  "('pm, 'sm) externals \<Rightarrow> string \<Rightarrow> ChatView \<Rightarrow> runtime \<Rightarrow> ChatView \<times> runtime" where
  "handleSubmit X dataDir v rt0 =
     (if cv_isLoading v \<or> String_trim X (cv_input v) = [] then (v, rt0)
      else
        let userInput = String_trim X (cv_input v);
            v0 = v\<lparr>cv_input := [], cv_isLoading := True, cv_error := None\<rparr>
        in case generateId X rt0 of (userMessageId, rt1) \<Rightarrow>
           case Date_now rt1 of (userTimestamp, rt2) \<Rightarrow>
           case encryptMessage X userInput ''assistant'' (cv_userStores v0) rt2 of
             (r1, userSt, rt3) \<Rightarrow>
           let v1 = v0\<lparr>cv_userStores := userSt\<rparr> in
           (case r1 of
              Inl e \<Rightarrow> (v1\<lparr>cv_error := Some (error_message e), cv_isLoading := False\<rparr>, rt3)
            | Inr encrypted \<Rightarrow>
           let userRecord =
                 \<lparr>emr_id = userMessageId, emr_sender = user,
                  emr_ciphertext = toBase64 (er_ciphertext encrypted),
                  emr_messageType = er_messageType encrypted,
                  emr_timestamp = userTimestamp\<rparr>;
               userMessage =
                 \<lparr>cm_id = userMessageId, cm_role = user, cm_content = userInput,
                  cm_timestamp = userTimestamp\<rparr>;
               v2 = v1\<lparr>cv_messages := cv_messages v1 @ [userMessage]\<rparr>;
               contextMessages = cv_messages v @ [userMessage]
           in (case streamChat X (model (cv_sessionData v)) contextMessages rt3 of
                 (Inl e, rt4) \<Rightarrow>
                   (v2\<lparr>cv_error := Some (error_message e), cv_isLoading := False\<rparr>, rt4)
               | (Inr chunks, rt4) \<Rightarrow>
           let assistantContent = concat chunks in
           (case encryptMessage X assistantContent ''user'' (cv_assistantStores v2) rt4 of
              (r2, assistantSt, rt5) \<Rightarrow>
           let v3 = v2\<lparr>cv_assistantStores := assistantSt\<rparr> in
           (case r2 of
              Inl e \<Rightarrow> (v3\<lparr>cv_error := Some (error_message e), cv_isLoading := False\<rparr>, rt5)
            | Inr assistantEncrypted \<Rightarrow>
           (case generateId X rt5 of (assistantMessageId, rt6) \<Rightarrow>
            case Date_now rt6 of (recordTimestamp, rt7) \<Rightarrow>
            case Date_now rt7 of (messageTimestamp, rt8) \<Rightarrow>
            let assistantRecord =
                  \<lparr>emr_id = assistantMessageId, emr_sender = assistant,
                   emr_ciphertext = toBase64 (er_ciphertext assistantEncrypted),
                   emr_messageType = er_messageType assistantEncrypted,
                   emr_timestamp = recordTimestamp\<rparr>;
                assistantMessage =
                  \<lparr>cm_id = assistantMessageId, cm_role = assistant,
                   cm_content = assistantContent, cm_timestamp = messageTimestamp\<rparr>;
                v4 = v3\<lparr>cv_messages := cv_messages v3 @ [assistantMessage]\<rparr>;
                updatedSessionData =
                  (cv_sessionData v)\<lparr>messages :=
                     messages (cv_sessionData v) @ [userRecord, assistantRecord]\<rparr>
            in (case updateSessionMessages dataDir updatedSessionData (cv_userStores v4) rt8 of
                  (Inl e, sessionData', rt9) \<Rightarrow>
                    (v4\<lparr>cv_sessionData := sessionData',
                        cv_error := Some (error_message e), cv_isLoading := False\<rparr>, rt9)
                | (Inr _, sessionData', rt9) \<Rightarrow>
                    (v4\<lparr>cv_sessionData := sessionData', cv_isLoading := False\<rparr>, rt9))))))))"

section \<open>A reference protocol engine\<close>

text \<open>
  Modelled from the spec: the cryptographic protocol engine (key agreement over the
  long-term, signed, one-time and KEM keys, message encrypt and decrypt with message-type
  tagging) is a library outside the repository. The definitions of this section are a
  symbolic engine that follows sections 4.3, 4.4 and 6 of the specification: keys and
  secrets are byte strings, a shared secret is the pair of the two private scalars, a
  sealed message opens under the key it was sealed with and under no other, and a KEM
  ciphertext opens to the encapsulated secret under the secret key of the public key it
  was made for and to an unrelated value under any other. Only the sending and receiving
  chains of one session are kept: there is no Diffie-Hellman ratchet step and no cache of
  skipped message keys.
\<close>

text \<open>Modelled from the spec: a number as a little-endian byte string.\<close>

fun nat_bytes :: "nat \<Rightarrow> bytes" where
  "nat_bytes n = (if n = 0 then [] else of_nat (n mod 256) # nat_bytes (n div 256))"

declare nat_bytes.simps [simp del]

text \<open>Modelled from the spec: the number that a little-endian byte string encodes.\<close>

fun bytes_nat :: "bytes \<Rightarrow> nat" where
  "bytes_nat [] = 0"
| "bytes_nat (b # bs) = unat b + 256 * bytes_nat bs"

text \<open>Modelled from the spec: an integer as a byte string (sign folded into the lowest bit).\<close>

definition int_bytes :: "int \<Rightarrow> bytes" where
  "int_bytes i = nat_bytes (if 0 \<le> i then 2 * nat i else 2 * nat (- i) - 1)"

text \<open>Modelled from the spec: the integer that such a byte string encodes.\<close>

definition bytes_int :: "bytes \<Rightarrow> int" where
  "bytes_int bs =
     (let n = bytes_nat bs in if even n then int (n div 2) else - int ((n + 1) div 2))"

text \<open>Modelled from the spec: one field of an encoding, preceded by its length.\<close>

definition frame :: "bytes \<Rightarrow> bytes" where
  "frame f = of_nat (length (nat_bytes (length f))) # nat_bytes (length f) @ f"

text \<open>Modelled from the spec: the encoding of a list of fields.\<close>

definition pack :: "bytes list \<Rightarrow> bytes" where
  "pack fs = concat (map frame fs)"

text \<open>Modelled from the spec: the fields of an encoding; \<open>None\<close> when it is cut short.\<close>

function unpack :: "bytes \<Rightarrow> bytes list option" where
  "unpack [] = Some []"
| "unpack (l # rest) =
     (let ll = unat l; n = bytes_nat (take ll rest); body = drop ll rest
      in if length rest < ll \<or> length body < n then None
         else map_option ((#) (take n body)) (unpack (drop n body)))"
  by pat_completeness auto
termination
  by (relation "measure length") auto

text \<open>Modelled from the spec: the public key of a private key.\<close>

definition ref_getPublicKey :: "PrivateKey \<Rightarrow> PublicKey" where
  "ref_getPublicKey k = PublicKey (5 # PrivateKey_serialize k)"

text \<open>Modelled from the spec: a signature names the signing key and the message.\<close>

definition ref_sign :: "PrivateKey \<Rightarrow> bytes \<Rightarrow> bytes" where
  "ref_sign k msg = pack [PrivateKey_serialize k, msg]"

text \<open>Modelled from the spec: a signature is valid for the public key of its signing key.\<close>

definition ref_verify :: "PublicKey \<Rightarrow> bytes \<Rightarrow> bytes \<Rightarrow> bool" where
  "ref_verify p msg sig =
     (case PublicKey_serialize p of
        [] \<Rightarrow> False
      | t # k \<Rightarrow> t = 5 \<and> sig = pack [k, msg])"

text \<open>Modelled from the spec: key agreement; both sides obtain the same pair of scalars.\<close>

definition ref_agree :: "PrivateKey \<Rightarrow> PublicKey \<Rightarrow> bytes" where
  "ref_agree ours theirs =
     (case PublicKey_serialize theirs of
        [] \<Rightarrow> []
      | t # b \<Rightarrow> pack [min (PrivateKey_serialize ours) b, max (PrivateKey_serialize ours) b])"

text \<open>Modelled from the spec: KEM encapsulation of a secret for a public key.\<close>

definition ref_encapsulate :: "KEMPublicKey \<Rightarrow> bytes \<Rightarrow> bytes \<times> bytes" where
  "ref_encapsulate p seed = (pack [KEMPublicKey_serialize p, seed], seed)"

text \<open>Modelled from the spec: KEM decapsulation, with an unrelated result under a key
  that the ciphertext was not made for.\<close>

definition ref_decapsulate :: "KEMSecretKey \<Rightarrow> bytes \<Rightarrow> bytes" where
  "ref_decapsulate s ct =
     (case unpack ct of
        Some [p, seed] \<Rightarrow>
          if p = 8 # KEMSecretKey_serialize s then seed else pack [KEMSecretKey_serialize s, ct]
      | _ \<Rightarrow> pack [KEMSecretKey_serialize s, ct])"

text \<open>Modelled from the spec: authenticated encryption of a message under a key.\<close>

definition seal :: "bytes \<Rightarrow> bytes \<Rightarrow> bytes" where
  "seal key msg = pack [key, msg]"

text \<open>Modelled from the spec: opening a sealed message; it fails under any other key.\<close>

definition unseal :: "bytes \<Rightarrow> bytes \<Rightarrow> bytes option" where
  "unseal key sealed =
     (case unpack sealed of
        Some [k, msg] \<Rightarrow> if k = key then Some msg else None
      | _ \<Rightarrow> None)"

text \<open>Modelled from the spec: encoding of a one-time pre-key record.\<close>

fun ref_PreKeyRecord_serialize :: "PreKeyRecord \<Rightarrow> bytes" where
  "ref_PreKeyRecord_serialize (PreKeyRecord_new i pub priv) =
     pack [nat_bytes i, PublicKey_serialize pub, PrivateKey_serialize priv]"

text \<open>Modelled from the spec: decoding of a one-time pre-key record.\<close>

definition ref_PreKeyRecord_deserialize :: "bytes \<Rightarrow> error + PreKeyRecord" where
  "ref_PreKeyRecord_deserialize bs =
     (case unpack bs of
        Some [i, pub, priv] \<Rightarrow> Inr (PreKeyRecord_new (bytes_nat i) (PublicKey pub) (PrivateKey priv))
      | _ \<Rightarrow> Inl (Error ''invalid PreKeyRecord''))"

text \<open>Modelled from the spec: encoding of a signed pre-key record.\<close>

fun ref_SignedPreKeyRecord_serialize :: "SignedPreKeyRecord \<Rightarrow> bytes" where
  "ref_SignedPreKeyRecord_serialize (SignedPreKeyRecord_new i ts pub priv sig) =
     pack [nat_bytes i, int_bytes ts, PublicKey_serialize pub, PrivateKey_serialize priv, sig]"

text \<open>Modelled from the spec: decoding of a signed pre-key record.\<close>

definition ref_SignedPreKeyRecord_deserialize :: "bytes \<Rightarrow> error + SignedPreKeyRecord" where
  "ref_SignedPreKeyRecord_deserialize bs =
     (case unpack bs of
        Some [i, ts, pub, priv, sig] \<Rightarrow>
          Inr (SignedPreKeyRecord_new (bytes_nat i) (bytes_int ts) (PublicKey pub)
                 (PrivateKey priv) sig)
      | _ \<Rightarrow> Inl (Error ''invalid SignedPreKeyRecord''))"

text \<open>Modelled from the spec: encoding of a KEM pre-key record.\<close>

fun ref_KyberPreKeyRecord_serialize :: "KyberPreKeyRecord \<Rightarrow> bytes" where
  "ref_KyberPreKeyRecord_serialize (KyberPreKeyRecord_new i ts pair sig) =
     pack [nat_bytes i, int_bytes ts, KEMPublicKey_serialize (getPublicKey pair),
           KEMSecretKey_serialize (getSecretKey pair), sig]"

text \<open>Modelled from the spec: decoding of a KEM pre-key record.\<close>

definition ref_KyberPreKeyRecord_deserialize :: "bytes \<Rightarrow> error + KyberPreKeyRecord" where
  "ref_KyberPreKeyRecord_deserialize bs =
     (case unpack bs of
        Some [i, ts, pub, sec, sig] \<Rightarrow>
          Inr (KyberPreKeyRecord_new (bytes_nat i) (bytes_int ts)
                 (KEMKeyPair (KEMPublicKey pub) (KEMSecretKey sec)) sig)
      | _ \<Rightarrow> Inl (Error ''invalid KyberPreKeyRecord''))"

text \<open>
  Modelled from the spec: the ratchet state of a session. \<open>rs_pending\<close> holds the
  handshake data (one-time, signed and Kyber pre-key ids, KEM ciphertext) while no message
  of the peer has been received.
\<close>

record ref_session =
  rs_rootKey :: bytes
  rs_initiator :: bool
  rs_sendCounter :: nat
  rs_recvCounter :: nat
  rs_baseKey :: bytes
  rs_pending :: "(nat \<times> nat \<times> nat \<times> bytes) option"

text \<open>Modelled from the spec: the opaque blob of a ratchet state.\<close>

definition ref_session_serialize :: "ref_session \<Rightarrow> bytes" where
  "ref_session_serialize s =
     pack [rs_rootKey s, [if rs_initiator s then 1 else 0], nat_bytes (rs_sendCounter s),
           nat_bytes (rs_recvCounter s), rs_baseKey s,
           (case rs_pending s of
              None \<Rightarrow> []
            | Some (pk, spk, kpk, ct) \<Rightarrow> pack [nat_bytes pk, nat_bytes spk, nat_bytes kpk, ct])]"

text \<open>Modelled from the spec: reading a ratchet state back from its blob.\<close>

definition ref_session_deserialize :: "bytes \<Rightarrow> error + ref_session" where
  "ref_session_deserialize bs =
     (case unpack bs of
        Some [rootKey, ini, sent, received, base, pend] \<Rightarrow>
          (case (if pend = [] then Some None
                 else (case unpack pend of
                         Some [pk, spk, kpk, ct] \<Rightarrow>
                           Some (Some (bytes_nat pk, bytes_nat spk, bytes_nat kpk, ct))
                       | _ \<Rightarrow> None)) of
             None \<Rightarrow> Inl (Error ''invalid SessionRecord'')
           | Some p \<Rightarrow>
               Inr \<lparr>rs_rootKey = rootKey, rs_initiator = (ini = [1]),
                    rs_sendCounter = bytes_nat sent, rs_recvCounter = bytes_nat received,
                    rs_baseKey = base, rs_pending = p\<rparr>)
      | _ \<Rightarrow> Inl (Error ''invalid SessionRecord''))"

text \<open>Modelled from the spec: the two kinds of message and their serialized forms.\<close>

datatype ref_SignalMessage = ref_SignalMessage (sm_counter: nat) (sm_sealed: bytes)

text \<open>Modelled from the spec: a handshake-carrying message: the ids of the pre-keys it
  refers to, the KEM ciphertext, the base and identity keys of the sender, and the message.\<close>

datatype ref_PreKeySignalMessage =
  ref_PreKeySignalMessage (pm_preKeyId: nat) (pm_signedPreKeyId: nat) (pm_kyberPreKeyId: nat)
    (pm_kyberCiphertext: bytes) (pm_baseKey: PublicKey) (pm_identityKey: PublicKey)
    (pm_message: ref_SignalMessage)

text \<open>Modelled from the spec: the bytes of a ratchet message.\<close>

definition ref_SignalMessage_serialize :: "ref_SignalMessage \<Rightarrow> bytes" where
  "ref_SignalMessage_serialize m = pack [nat_bytes (sm_counter m), sm_sealed m]"

text \<open>Modelled from the spec: reading a ratchet message.\<close>

definition ref_SignalMessage_deserialize :: "bytes \<Rightarrow> error + ref_SignalMessage" where
  "ref_SignalMessage_deserialize bs =
     (case unpack bs of
        Some [n, sealed] \<Rightarrow> Inr (ref_SignalMessage (bytes_nat n) sealed)
      | _ \<Rightarrow> Inl (Error ''invalid SignalMessage''))"

text \<open>Modelled from the spec: the bytes of a handshake message.\<close>

definition ref_PreKeySignalMessage_serialize :: "ref_PreKeySignalMessage \<Rightarrow> bytes" where
  "ref_PreKeySignalMessage_serialize m =
     pack [nat_bytes (pm_preKeyId m), nat_bytes (pm_signedPreKeyId m),
           nat_bytes (pm_kyberPreKeyId m), pm_kyberCiphertext m,
           PublicKey_serialize (pm_baseKey m), PublicKey_serialize (pm_identityKey m),
           nat_bytes (sm_counter (pm_message m)), sm_sealed (pm_message m)]"

text \<open>Modelled from the spec: reading a handshake message.\<close>

definition ref_PreKeySignalMessage_deserialize :: "bytes \<Rightarrow> error + ref_PreKeySignalMessage" where
  "ref_PreKeySignalMessage_deserialize bs =
     (case unpack bs of
        Some [pk, spk, kpk, ct, base, ident, n, sealed] \<Rightarrow>
          Inr (ref_PreKeySignalMessage (bytes_nat pk) (bytes_nat spk) (bytes_nat kpk) ct
                 (PublicKey base) (PublicKey ident) (ref_SignalMessage (bytes_nat n) sealed))
      | _ \<Rightarrow> Inl (Error ''invalid PreKeySignalMessage''))"

text \<open>
  Modelled from the spec: the key of message \<open>n\<close> on the chain of the initiator (1) or
  of the responder (2).
\<close>

definition message_key :: "bytes \<Rightarrow> bool \<Rightarrow> nat \<Rightarrow> bytes" where
  "message_key rootKey from_initiator n = pack [rootKey, [if from_initiator then 1 else 2], nat_bytes n]"

text \<open>
  Modelled from the spec: (4.3, steps 2 and 3) process a peer's bundle. The signatures of
  the signed and of the KEM pre-key are checked against the bundle's identity key, a
  base key is generated, a secret is encapsulated for the bundle's KEM public key, the
  agreement over the identity, signed and one-time keys and the KEM secret is the initial
  ratchet state saved under the peer's address, and the peer's identity key is recorded.
\<close>

definition ref_processPreKeyBundle ::
  "PreKeyBundle \<Rightarrow> ProtocolAddress \<Rightarrow> InMemorySessionStore \<Rightarrow> InMemoryIdentityKeyStore \<Rightarrow> runtime
     \<Rightarrow> (error + unit) \<times> InMemorySessionStore \<times> InMemoryIdentityKeyStore \<times> runtime" where
  "ref_processPreKeyBundle b address sess ident rt =
     (if \<not> ref_verify (pkb_identityKey b) (PublicKey_serialize (pkb_signedPreKeyPublic b))
             (pkb_signedPreKeySignature b)
      then (Inl (Error ''invalid signed pre-key signature''), sess, ident, rt)
      else if \<not> ref_verify (pkb_identityKey b) (KEMPublicKey_serialize (pkb_kyberPreKeyPublic b))
                  (pkb_kyberPreKeySignature b)
      then (Inl (Error ''invalid Kyber pre-key signature''), sess, ident, rt)
      else
        case PrivateKey_generate rt of (baseKey, rt1) \<Rightarrow>
        case PrivateKey_generate rt1 of (seed, rt2) \<Rightarrow>
        case ref_encapsulate (pkb_kyberPreKeyPublic b) (PrivateKey_serialize seed) of
          (ct, secret) \<Rightarrow>
            let ours = getIdentityKey ident;
                rootKey = pack [ref_agree ours (pkb_signedPreKeyPublic b),
                             ref_agree baseKey (pkb_identityKey b),
                             ref_agree baseKey (pkb_signedPreKeyPublic b),
                             ref_agree baseKey (pkb_preKeyPublic b),
                             secret];
                state = \<lparr>rs_rootKey = rootKey, rs_initiator = True, rs_sendCounter = 0,
                         rs_recvCounter = 0,
                         rs_baseKey = PublicKey_serialize (ref_getPublicKey baseKey),
                         rs_pending = Some (pkb_preKeyId b, pkb_signedPreKeyId b,
                                            pkb_kyberPreKeyId b, ct)\<rparr>
            in (Inr (), saveSession ref_session_serialize sess address state,
                snd (saveIdentity ident address (pkb_identityKey b)), rt2))"

text \<open>
  Modelled from the spec: (4.4, encrypt) the sending chain of the session for the peer is
  advanced and the message sealed under its key; the result is a handshake message while
  the session has received nothing, a ratchet message afterwards.
\<close>

definition ref_signalEncrypt ::
  "bytes \<Rightarrow> ProtocolAddress \<Rightarrow> InMemorySessionStore \<Rightarrow> InMemoryIdentityKeyStore \<Rightarrow> runtime
     \<Rightarrow> (error + CiphertextMessage) \<times> InMemorySessionStore \<times> InMemoryIdentityKeyStore \<times> runtime" where
  "ref_signalEncrypt msg address sess ident rt =
     (case getSession ref_session_deserialize sess address of
        Inl e \<Rightarrow> (Inl e, sess, ident, rt)
      | Inr None \<Rightarrow> (Inl (Error (''session with '' @ address_idx address @ '' not found'')), sess, ident, rt)
      | Inr (Some s) \<Rightarrow>
          let inner = ref_SignalMessage (rs_sendCounter s)
                        (seal (message_key (rs_rootKey s) (rs_initiator s) (rs_sendCounter s)) msg);
              s' = s\<lparr>rs_sendCounter := rs_sendCounter s + 1\<rparr>;
              ciphertext =
                (case rs_pending s of
                   Some (pk, spk, kpk, ct) \<Rightarrow>
                     CiphertextMessage
                       (ref_PreKeySignalMessage_serialize
                          (ref_PreKeySignalMessage pk spk kpk ct (PublicKey (rs_baseKey s))
                             (ref_getPublicKey (getIdentityKey ident)) inner))
                       PreKey
                 | None \<Rightarrow> CiphertextMessage (ref_SignalMessage_serialize inner) Whisper)
          in (Inr ciphertext, saveSession ref_session_serialize sess address s', ident, rt))"

text \<open>
  Modelled from the spec: (4.4, decrypt of a ratchet message) the message opens under the
  key of its number on the peer's chain; a number below the receiving counter or a
  message that does not open is a decryption error and leaves the session as it was.
\<close>

definition ref_open ::
  "ref_session \<Rightarrow> ref_SignalMessage \<Rightarrow> error + (bytes \<times> ref_session)" where
  "ref_open s m =
     (if sm_counter m < rs_recvCounter s then Inl (Error ''duplicate message'')
      else
        case unseal (message_key (rs_rootKey s) (\<not> rs_initiator s) (sm_counter m)) (sm_sealed m) of
          None \<Rightarrow> Inl (Error ''decryption failed'')
        | Some plaintext \<Rightarrow>
            Inr (plaintext, s\<lparr>rs_recvCounter := sm_counter m + 1, rs_pending := None\<rparr>))"

text \<open>Modelled from the spec: decrypt of a ratchet message with the session stored for
  the peer.\<close>

definition ref_signalDecrypt ::
  "ref_SignalMessage \<Rightarrow> ProtocolAddress \<Rightarrow> InMemorySessionStore \<Rightarrow> InMemoryIdentityKeyStore
     \<Rightarrow> runtime
     \<Rightarrow> (error + bytes) \<times> InMemorySessionStore \<times> InMemoryIdentityKeyStore \<times> runtime" where
  "ref_signalDecrypt m address sess ident rt =
     (case getSession ref_session_deserialize sess address of
        Inl e \<Rightarrow> (Inl e, sess, ident, rt)
      | Inr None \<Rightarrow> (Inl (Error (''session with '' @ address_idx address @ '' not found'')), sess, ident, rt)
      | Inr (Some s) \<Rightarrow>
          (case ref_open s m of
             Inl e \<Rightarrow> (Inl e, sess, ident, rt)
           | Inr (plaintext, s') \<Rightarrow>
               (Inr plaintext, saveSession ref_session_serialize sess address s', ident, rt)))"

text \<open>
  Modelled from the spec: (4.4, decrypt of a handshake message) unless the session for the
  peer already answers this handshake (same base key), the signed, KEM and one-time
  pre-keys named by the message are read from the stores (a missing one is fatal), the
  KEM ciphertext is opened with the stored KEM secret key, the agreement is completed
  and the message opened under it. On success the new session and the sender's identity
  are saved, the KEM pre-key is marked as used and the one-time pre-key is removed.
\<close>

definition ref_signalDecryptPreKey ::
  "ref_PreKeySignalMessage \<Rightarrow> ProtocolAddress \<Rightarrow> SignalStores \<Rightarrow> runtime
     \<Rightarrow> (error + bytes) \<times> SignalStores \<times> runtime" where
  "ref_signalDecryptPreKey m address stores rt =
     (case getSession ref_session_deserialize (session stores) address of
        Inl e \<Rightarrow> (Inl e, stores, rt)
      | Inr existing \<Rightarrow>
          (case (case existing of
                   Some s \<Rightarrow>
                     if \<not> rs_initiator s \<and> rs_baseKey s = PublicKey_serialize (pm_baseKey m)
                     then Some s
                     else None
                 | None \<Rightarrow> None) of
             Some s \<Rightarrow>
               (case ref_open s (pm_message m) of
                  Inl e \<Rightarrow> (Inl e, stores, rt)
                | Inr (plaintext, s') \<Rightarrow>
                    (Inr plaintext,
                     stores\<lparr>session := saveSession ref_session_serialize (session stores) address s'\<rparr>,
                     rt))
           | None \<Rightarrow>
               (case getSignedPreKey ref_SignedPreKeyRecord_deserialize (signedPreKey stores)
                       (pm_signedPreKeyId m) of
                  Inl e \<Rightarrow> (Inl e, stores, rt)
                | Inr (SignedPreKeyRecord_new _ _ _ signedPrivate _) \<Rightarrow>
               (case getKyberPreKey ref_KyberPreKeyRecord_deserialize (kyberPreKey stores)
                       (pm_kyberPreKeyId m) of
                  Inl e \<Rightarrow> (Inl e, stores, rt)
                | Inr kyberRecord \<Rightarrow>
               (case getPreKey ref_PreKeyRecord_deserialize (preKey stores) (pm_preKeyId m) of
                  Inl e \<Rightarrow> (Inl e, stores, rt)
                | Inr (PreKeyRecord_new _ _ oneTimePrivate) \<Rightarrow>
                    let ours = getIdentityKey (identity stores);
                        secret = ref_decapsulate (getSecretKey (kyber_record_keyPair kyberRecord))
                                   (pm_kyberCiphertext m);
                        rootKey = pack [ref_agree signedPrivate (pm_identityKey m),
                                     ref_agree ours (pm_baseKey m),
                                     ref_agree signedPrivate (pm_baseKey m),
                                     ref_agree oneTimePrivate (pm_baseKey m),
                                     secret];
                        s = \<lparr>rs_rootKey = rootKey, rs_initiator = False, rs_sendCounter = 0,
                             rs_recvCounter = 0,
                             rs_baseKey = PublicKey_serialize (pm_baseKey m),
                             rs_pending = None\<rparr>
                    in (case ref_open s (pm_message m) of
                          Inl e \<Rightarrow> (Inl e, stores, rt)
                        | Inr (plaintext, s') \<Rightarrow>
                            (Inr plaintext,
                             stores\<lparr>session :=
                                      saveSession ref_session_serialize (session stores) address s',
                                    identity :=
                                      snd (saveIdentity (identity stores) address (pm_identityKey m)),
                                    kyberPreKey :=
                                      markKyberPreKeyUsed (kyberPreKey stores) (pm_kyberPreKeyId m)
                                        (pm_signedPreKeyId m) (pm_baseKey m),
                                    preKey := removePreKey (preKey stores) (pm_preKeyId m)\<rparr>,
                             rt)))))))"

text \<open>Modelled from the spec: the ASCII white space that \<open>trim\<close> removes.\<close>

definition is_space :: "char \<Rightarrow> bool" where
  "is_space c = (c = CHR '' '' \<or> c = CHR 0x09 \<or> c = CHR 0x0A \<or> c = CHR 0x0B \<or> c = CHR 0x0C
                 \<or> c = CHR 0x0D)"

text \<open>Modelled from the spec: \<open>trim\<close> of the JavaScript engine, on ASCII white space.\<close>

definition ref_trim :: "string \<Rightarrow> string" where
  "ref_trim s = rev (dropWhile is_space (rev (dropWhile is_space s)))"

text \<open>Modelled from the spec: the collaborators assembled; the inference service answers
  every history with the same two chunks, and every byte string is taken for a key.\<close>

definition reference_externals :: "(ref_PreKeySignalMessage, ref_SignalMessage) externals" where
  "reference_externals =
     \<lparr>PrivateKey_getPublicKey = ref_getPublicKey,
      PrivateKey_sign = ref_sign,
      PreKeyRecord_serialize = ref_PreKeyRecord_serialize,
      PreKeyRecord_deserialize = ref_PreKeyRecord_deserialize,
      SignedPreKeyRecord_serialize = ref_SignedPreKeyRecord_serialize,
      SignedPreKeyRecord_deserialize = ref_SignedPreKeyRecord_deserialize,
      KyberPreKeyRecord_serialize = ref_KyberPreKeyRecord_serialize,
      KyberPreKeyRecord_deserialize = ref_KyberPreKeyRecord_deserialize,
      processPreKeyBundle = ref_processPreKeyBundle,
      signalEncrypt = ref_signalEncrypt,
      PreKeySignalMessage_deserialize = ref_PreKeySignalMessage_deserialize,
      SignalMessage_deserialize = ref_SignalMessage_deserialize,
      signalDecryptPreKey = ref_signalDecryptPreKey,
      signalDecrypt = ref_signalDecrypt,
      streamChat = (\<lambda>modelName history rt. (Inr [''Hello'', '' there''], rt)),
      String_trim = ref_trim,
      Number_toString36 = (\<lambda>r. ''0.4fzyo82mvyr''),
      identityKeys_deserialize_error = (\<lambda>identityKeys. None)\<rparr>"

section \<open>Operation sequences and example values\<close>

text \<open>
  The operations of the PreKey store as values, so that a statement can range over every
  sequence of them. Reading and serializing leave the store as it is.
\<close>

datatype PreKeyStoreOp =
  SavePreKey nat PreKeyRecord
| GetPreKey nat
| RemovePreKey nat
| SerializeStore
| DeserializeStore "nat \<rightharpoonup> string"

fun PreKeyStore_step ::
  "(PreKeyRecord \<Rightarrow> bytes) \<Rightarrow> InMemoryPreKeyStore \<Rightarrow> PreKeyStoreOp \<Rightarrow> InMemoryPreKeyStore" where
  "PreKeyStore_step ser st (SavePreKey i r) = savePreKey ser st i r"
| "PreKeyStore_step ser st (GetPreKey i) = st"
| "PreKeyStore_step ser st (RemovePreKey i) = removePreKey st i"
| "PreKeyStore_step ser st SerializeStore = st"
| "PreKeyStore_step ser st (DeserializeStore data) = KeyStore_deserialize st data"

text \<open>The operations that put a record under id \<open>i\<close>.\<close>

fun inserts_id :: "nat \<Rightarrow> PreKeyStoreOp \<Rightarrow> bool" where
  "inserts_id i (SavePreKey j r) = (j = i)"
| "inserts_id i (DeserializeStore data) = (data i \<noteq> None)"
| "inserts_id i _ = False"

text \<open>
  A runtime to evaluate examples in: \<open>Math.random()\<close> returns 1/4, the clock counts
  from 1000, and the \<open>n\<close>-th generated private key and KEM pair are made of the byte
  \<open>n\<close>.
\<close>

definition example_runtime :: runtime where
  "example_runtime =
     \<lparr>Math_random_values = (\<lambda>n. Number 1 (- 2)),
      Math_random_calls = 0,
      Date_now_values = (\<lambda>n. 1000 + int n),
      Date_now_calls = 0,
      PrivateKey_generate_values = (\<lambda>n. PrivateKey [of_nat n]),
      PrivateKey_generate_calls = 0,
      KEMKeyPair_generate_values =
        (\<lambda>n. KEMKeyPair (KEMPublicKey [8, of_nat n]) (KEMSecretKey [of_nat n])),
      KEMKeyPair_generate_calls = 0,
      files = Map.empty,
      write_error = (\<lambda>p. None),
      console_errors = []\<rparr>"

text \<open>
  The example runtime after the given numbers of calls of \<open>Math.random()\<close>,
  \<open>Date.now()\<close>, \<open>PrivateKey.generate()\<close> and \<open>KEMKeyPair.generate()\<close>.
\<close>

definition example_runtime_at :: "nat \<Rightarrow> nat \<Rightarrow> nat \<Rightarrow> nat \<Rightarrow> runtime" where
  "example_runtime_at m d p k =
     example_runtime\<lparr>Math_random_calls := m, Date_now_calls := d,
                     PrivateKey_generate_calls := p, KEMKeyPair_generate_calls := k\<rparr>"

text \<open>
  The two identity bundles that \<open>createIdentityBundle\<close> returns in the example runtime
  with the reference engine, and the two store collections after \<open>populateStores\<close> and
  \<open>establishSession\<close>. The Kyber record of the user's stores holds the pair
  \<open>([8, 2], [2])\<close> that \<open>populateStores\<close> generated, the user's bundle the pair
  \<open>([8, 0], [0])\<close>; for the assistant they are \<open>([8, 3], [3])\<close> and \<open>([8, 1], [1])\<close>.
\<close>

definition example_user_bundle :: IdentityBundle where
  "example_user_bundle =
     \<lparr>registrationId = 4096,
      identityKeyPair = \<lparr>ikp_privateKey = PrivateKey [0], ikp_publicKey = PublicKey [5, 0]\<rparr>,
      bundle_signedPreKey =
        \<lparr>spk_id = 1, spk_timestamp = 1000, spk_publicKey = PublicKey [5, 1],
         spk_privateKey = PrivateKey [1], spk_signature = [1, 1, 0, 1, 2, 5, 1]\<rparr>,
      preKeys =
        [\<lparr>pk_id = 1, pk_publicKey = PublicKey [5, 2], pk_privateKey = PrivateKey [2]\<rparr>,
         \<lparr>pk_id = 2, pk_publicKey = PublicKey [5, 3], pk_privateKey = PrivateKey [3]\<rparr>,
         \<lparr>pk_id = 3, pk_publicKey = PublicKey [5, 4], pk_privateKey = PrivateKey [4]\<rparr>,
         \<lparr>pk_id = 4, pk_publicKey = PublicKey [5, 5], pk_privateKey = PrivateKey [5]\<rparr>,
         \<lparr>pk_id = 5, pk_publicKey = PublicKey [5, 6], pk_privateKey = PrivateKey [6]\<rparr>,
         \<lparr>pk_id = 6, pk_publicKey = PublicKey [5, 7], pk_privateKey = PrivateKey [7]\<rparr>,
         \<lparr>pk_id = 7, pk_publicKey = PublicKey [5, 8], pk_privateKey = PrivateKey [8]\<rparr>,
         \<lparr>pk_id = 8, pk_publicKey = PublicKey [5, 9], pk_privateKey = PrivateKey [9]\<rparr>,
         \<lparr>pk_id = 9, pk_publicKey = PublicKey [5, 10], pk_privateKey = PrivateKey [10]\<rparr>,
         \<lparr>pk_id = 10, pk_publicKey = PublicKey [5, 11], pk_privateKey = PrivateKey [11]\<rparr>],
      bundle_kyberPreKey =
        \<lparr>kpk_id = 1, kpk_timestamp = 1001, kpk_publicKey = KEMPublicKey [8, 0],
         kpk_secretKey = KEMSecretKey [0], kpk_signature = [1, 1, 0, 1, 2, 8, 0]\<rparr>\<rparr>"

definition example_assistant_bundle :: IdentityBundle where
  "example_assistant_bundle =
     \<lparr>registrationId = 4096,
      identityKeyPair = \<lparr>ikp_privateKey = PrivateKey [12], ikp_publicKey = PublicKey [5, 12]\<rparr>,
      bundle_signedPreKey =
        \<lparr>spk_id = 1, spk_timestamp = 1002, spk_publicKey = PublicKey [5, 13],
         spk_privateKey = PrivateKey [13], spk_signature = [1, 1, 12, 1, 2, 5, 13]\<rparr>,
      preKeys =
        [\<lparr>pk_id = 1, pk_publicKey = PublicKey [5, 14], pk_privateKey = PrivateKey [14]\<rparr>,
         \<lparr>pk_id = 2, pk_publicKey = PublicKey [5, 15], pk_privateKey = PrivateKey [15]\<rparr>,
         \<lparr>pk_id = 3, pk_publicKey = PublicKey [5, 16], pk_privateKey = PrivateKey [16]\<rparr>,
         \<lparr>pk_id = 4, pk_publicKey = PublicKey [5, 17], pk_privateKey = PrivateKey [17]\<rparr>,
         \<lparr>pk_id = 5, pk_publicKey = PublicKey [5, 18], pk_privateKey = PrivateKey [18]\<rparr>,
         \<lparr>pk_id = 6, pk_publicKey = PublicKey [5, 19], pk_privateKey = PrivateKey [19]\<rparr>,
         \<lparr>pk_id = 7, pk_publicKey = PublicKey [5, 20], pk_privateKey = PrivateKey [20]\<rparr>,
         \<lparr>pk_id = 8, pk_publicKey = PublicKey [5, 21], pk_privateKey = PrivateKey [21]\<rparr>,
         \<lparr>pk_id = 9, pk_publicKey = PublicKey [5, 22], pk_privateKey = PrivateKey [22]\<rparr>,
         \<lparr>pk_id = 10, pk_publicKey = PublicKey [5, 23], pk_privateKey = PrivateKey [23]\<rparr>],
      bundle_kyberPreKey =
        \<lparr>kpk_id = 1, kpk_timestamp = 1003, kpk_publicKey = KEMPublicKey [8, 1],
         kpk_secretKey = KEMSecretKey [1], kpk_signature = [1, 1, 12, 1, 2, 8, 1]\<rparr>\<rparr>"

definition example_user_stores :: SignalStores where
  "example_user_stores =
     \<lparr>session =
        [''assistant::1'' \<mapsto>
           [1, 35, 1, 6, 1, 1, 0, 1, 1, 13, 1, 6, 1, 1, 12, 1, 1, 24, 1, 6, 1, 1, 13, 1, 1, 24,
            1, 6, 1, 1, 14, 1, 1, 24, 1, 1, 25, 1, 1, 1, 0, 0, 1, 2, 5, 24, 1, 18, 1, 1, 1, 1, 1,
            1, 1, 1, 1, 1, 7, 1, 2, 8, 1, 1, 1, 25]],
      identity =
        \<lparr>idKeys = [''assistant::1'' \<mapsto> PublicKey [5, 12]],
         localRegistrationId = 4096, identityKey = PrivateKey [0]\<rparr>,
      preKey =
        [1 \<mapsto> [1, 1, 1, 1, 2, 5, 2, 1, 1, 2], 2 \<mapsto> [1, 1, 2, 1, 2, 5, 3, 1, 1, 3],
         3 \<mapsto> [1, 1, 3, 1, 2, 5, 4, 1, 1, 4], 4 \<mapsto> [1, 1, 4, 1, 2, 5, 5, 1, 1, 5],
         5 \<mapsto> [1, 1, 5, 1, 2, 5, 6, 1, 1, 6], 6 \<mapsto> [1, 1, 6, 1, 2, 5, 7, 1, 1, 7],
         7 \<mapsto> [1, 1, 7, 1, 2, 5, 8, 1, 1, 8], 8 \<mapsto> [1, 1, 8, 1, 2, 5, 9, 1, 1, 9],
         9 \<mapsto> [1, 1, 9, 1, 2, 5, 10, 1, 1, 10], 10 \<mapsto> [1, 1, 10, 1, 2, 5, 11, 1, 1, 11]],
      signedPreKey =
        [1 \<mapsto> [1, 1, 1, 1, 2, 208, 7, 1, 2, 5, 1, 1, 1, 1, 1, 7, 1, 1, 0, 1, 2, 5, 1]],
      kyberPreKey =
        [1 \<mapsto> [1, 1, 1, 1, 2, 210, 7, 1, 2, 8, 2, 1, 1, 2, 1, 7, 1, 1, 0, 1, 2, 8, 0]]\<rparr>"

definition example_assistant_stores :: SignalStores where
  "example_assistant_stores =
     \<lparr>session =
        [''user::1'' \<mapsto>
           [1, 35, 1, 6, 1, 1, 1, 1, 1, 12, 1, 6, 1, 1, 0, 1, 1, 26, 1, 6, 1, 1, 1, 1, 1, 26,
            1, 6, 1, 1, 2, 1, 1, 26, 1, 1, 27, 1, 1, 1, 0, 0, 1, 2, 5, 26, 1, 18, 1, 1, 1, 1, 1,
            1, 1, 1, 1, 1, 7, 1, 2, 8, 0, 1, 1, 27]],
      identity =
        \<lparr>idKeys = [''user::1'' \<mapsto> PublicKey [5, 0]],
         localRegistrationId = 4096, identityKey = PrivateKey [12]\<rparr>,
      preKey =
        [1 \<mapsto> [1, 1, 1, 1, 2, 5, 14, 1, 1, 14], 2 \<mapsto> [1, 1, 2, 1, 2, 5, 15, 1, 1, 15],
         3 \<mapsto> [1, 1, 3, 1, 2, 5, 16, 1, 1, 16], 4 \<mapsto> [1, 1, 4, 1, 2, 5, 17, 1, 1, 17],
         5 \<mapsto> [1, 1, 5, 1, 2, 5, 18, 1, 1, 18], 6 \<mapsto> [1, 1, 6, 1, 2, 5, 19, 1, 1, 19],
         7 \<mapsto> [1, 1, 7, 1, 2, 5, 20, 1, 1, 20], 8 \<mapsto> [1, 1, 8, 1, 2, 5, 21, 1, 1, 21],
         9 \<mapsto> [1, 1, 9, 1, 2, 5, 22, 1, 1, 22], 10 \<mapsto> [1, 1, 10, 1, 2, 5, 23, 1, 1, 23]],
      signedPreKey =
        [1 \<mapsto> [1, 1, 1, 1, 2, 212, 7, 1, 2, 5, 13, 1, 1, 13, 1, 7, 1, 1, 12, 1, 2, 5, 13]],
      kyberPreKey =
        [1 \<mapsto> [1, 1, 1, 1, 2, 214, 7, 1, 2, 8, 3, 1, 1, 3, 1, 7, 1, 1, 12, 1, 2, 8, 1]]\<rparr>"

text \<open>
  The session data that \<open>createNewSession\<close> writes for this session, and the view that
  \<open>ChatView\<close> starts from.
\<close>

definition example_session_data :: SessionData where
  "example_session_data =
     \<lparr>version = 1, created = 1004, model = ''llama3.2'',
      userIdentity = serializeIdentityBundle example_user_bundle,
      assistantIdentity = serializeIdentityBundle example_assistant_bundle,
      userStores = serializeStores example_user_stores,
      assistantStores = serializeStores example_assistant_stores,
      messages = []\<rparr>"

definition example_view :: ChatView where
  "example_view =
     ChatView_initial example_session_data example_user_stores example_assistant_stores"

text \<open>
  The record of the user's first message \<open>hello\<close> as \<open>handleSubmit\<close> persists it, a
  record whose ciphertext is no message at all, and the assistant's stores as they would
  be with the Kyber pair of the assistant's bundle in them.
\<close>

definition example_user_record :: EncryptedMessageRecord where
  "example_user_record =
     \<lparr>emr_id = ''1005-4fzyo82mv'', emr_sender = user,
      emr_ciphertext =
        toBase64
          [1, 1, 1, 1, 1, 1, 1, 1, 1, 1, 7, 1, 2, 8, 1, 1, 1, 25, 1, 2, 5, 24, 1, 2, 5, 0, 0, 1,
           50, 1, 41, 1, 35, 1, 6, 1, 1, 0, 1, 1, 13, 1, 6, 1, 1, 12, 1, 1, 24, 1, 6, 1, 1, 13,
           1, 1, 24, 1, 6, 1, 1, 14, 1, 1, 24, 1, 1, 25, 1, 1, 1, 0, 1, 5, 104, 101, 108, 108,
           111],
      emr_messageType = PreKey, emr_timestamp = 1006\<rparr>"

definition example_garbled_record :: EncryptedMessageRecord where
  "example_garbled_record =
     \<lparr>emr_id = ''1007-4fzyo82mv'', emr_sender = assistant, emr_ciphertext = toBase64 [0],
      emr_messageType = Whisper, emr_timestamp = 1008\<rparr>"

definition example_consistent_assistant_stores :: SignalStores where
  "example_consistent_assistant_stores =
     example_assistant_stores\<lparr>kyberPreKey :=
       [1 \<mapsto> [1, 1, 1, 1, 2, 214, 7, 1, 2, 8, 1, 1, 1, 1, 1, 7, 1, 1, 12, 1, 2, 8, 1]]\<rparr>"


text \<open>
  The handshake message that the ciphertext of \<open>example_user_record\<close> is for the
  reference engine, and the stores above after the decryption of it: the session with the
  user is the one that answers the handshake, and the one-time pre-key 1 is gone.
\<close>

definition example_handshake_message :: ref_PreKeySignalMessage where
  "example_handshake_message =
     ref_PreKeySignalMessage 1 1 1 [1, 2, 8, 1, 1, 1, 25] (PublicKey [5, 24]) (PublicKey [5, 0])
       (ref_SignalMessage 0
          [1, 41, 1, 35, 1, 6, 1, 1, 0, 1, 1, 13, 1, 6, 1, 1, 12, 1, 1, 24, 1, 6, 1, 1, 13, 1, 1,
           24, 1, 6, 1, 1, 14, 1, 1, 24, 1, 1, 25, 1, 1, 1, 0, 1, 5, 104, 101, 108, 108, 111])"

definition example_assistant_stores_after_handshake :: SignalStores where
  "example_assistant_stores_after_handshake =
     example_consistent_assistant_stores
       \<lparr>session :=
          [''user::1'' \<mapsto>
             [1, 35, 1, 6, 1, 1, 0, 1, 1, 13, 1, 6, 1, 1, 12, 1, 1, 24, 1, 6, 1, 1, 13, 1, 1, 24,
              1, 6, 1, 1, 14, 1, 1, 24, 1, 1, 25, 1, 1, 0, 0, 1, 1, 1, 1, 2, 5, 24, 0]],
        preKey := (preKey example_assistant_stores)(1 := None)\<rparr>"



section \<open>Base64 round trip\<close>

lemma b64_index_char: "n < 64 \<Longrightarrow> b64_index (b64_char n) = Some n"
  by (auto simp: b64_index_def b64_char_def Let_def)

lemma b64_index_pad: "b64_index (CHR ''='') = None"
  by (simp add: b64_index_def)

lemma b64_char_not_pad: "n < 64 \<Longrightarrow> b64_char n \<noteq> CHR ''=''"
  using b64_index_char [of n] b64_index_pad by auto

lemma unat_byte_less: "unat (a :: byte) < 256"
  using unsigned_less [of a, where 'a = nat] by simp

lemma sextet_bounds:
  fixes a b c :: byte
  shows "unat a div 4 < 64" "(unat a mod 4) * 16 + unat b div 16 < 64"
    "(unat b mod 16) * 4 + unat c div 64 < 64" "unat c mod 64 < 64"
    "(unat a mod 4) * 16 < 64" "(unat b mod 16) * 4 < 64"
  using unat_byte_less [of a] unat_byte_less [of b] unat_byte_less [of c] by auto

lemma first_byte_restored:
  fixes a b :: byte
  shows "(of_nat (unat a div 4 * 4 + ((unat a mod 4) * 16 + unat b div 16) div 16) :: byte) = a"
proof -
  have "unat b div 16 < 16" using unat_byte_less [of b] by auto
  then have "((unat a mod 4) * 16 + unat b div 16) div 16 = unat a mod 4" by auto
  then show ?thesis by (simp add: div_mult_mod_eq)
qed

lemma first_byte_restored_padded:
  fixes a :: byte
  shows "(of_nat (unat a div 4 * 4 + ((unat a mod 4) * 16) div 16) :: byte) = a"
  by (simp add: div_mult_mod_eq)

lemma second_byte_restored:
  fixes a b c :: byte
  shows "(of_nat ((((unat a mod 4) * 16 + unat b div 16) mod 16) * 16
            + ((unat b mod 16) * 4 + unat c div 64) div 4) :: byte) = b"
proof -
  have "unat b div 16 < 16" using unat_byte_less [of b] by auto
  then have hi: "((unat a mod 4) * 16 + unat b div 16) mod 16 = unat b div 16" by auto
  have "unat c div 64 < 4" using unat_byte_less [of c] by auto
  then have lo: "((unat b mod 16) * 4 + unat c div 64) div 4 = unat b mod 16" by auto
  show ?thesis unfolding hi lo by (simp add: div_mult_mod_eq)
qed

lemma second_byte_restored_padded:
  fixes a b :: byte
  shows "(of_nat ((((unat a mod 4) * 16 + unat b div 16) mod 16) * 16
            + ((unat b mod 16) * 4) div 4) :: byte) = b"
proof -
  have "unat b div 16 < 16" using unat_byte_less [of b] by auto
  then have hi: "((unat a mod 4) * 16 + unat b div 16) mod 16 = unat b div 16" by auto
  show ?thesis unfolding hi by (simp add: div_mult_mod_eq)
qed

lemma third_byte_restored:
  fixes b c :: byte
  shows "(of_nat ((((unat b mod 16) * 4 + unat c div 64) mod 4) * 64 + unat c mod 64) :: byte) = c"
proof -
  have "unat c div 64 < 4" using unat_byte_less [of c] by auto
  then have hi: "((unat b mod 16) * 4 + unat c div 64) mod 4 = unat c div 64" by auto
  show ?thesis unfolding hi by (simp add: div_mult_mod_eq)
qed

lemma fromBase64_toBase64 [simp]: "fromBase64 (toBase64 bs) = bs"
proof (induction bs rule: toBase64.induct)
  case 1
  show ?case by (simp add: fromBase64_def)
next
  case (2 a)
  have "fromBase64 (toBase64 [a]) = sextets_to_bytes [unat a div 4, (unat a mod 4) * 16]"
    by (simp add: fromBase64_def b64_char_not_pad b64_index_char sextet_bounds
        del: sextets_to_bytes.simps)
  also have "\<dots> = [a]"
    using first_byte_restored_padded [of a]
    by (simp only: sextets_to_bytes.simps mult_0 add_0_right)
  finally show ?case .
next
  case (3 a b)
  have "fromBase64 (toBase64 [a, b]) =
      sextets_to_bytes [unat a div 4, (unat a mod 4) * 16 + unat b div 16, (unat b mod 16) * 4]"
    by (simp add: fromBase64_def b64_char_not_pad b64_index_char sextet_bounds
        del: sextets_to_bytes.simps)
  also have "\<dots> = [a, b]"
    by (simp only: sextets_to_bytes.simps first_byte_restored second_byte_restored_padded)
  finally show ?case .
next
  case (4 a b c rest)
  have "fromBase64 (toBase64 (a # b # c # rest)) =
      sextets_to_bytes (unat a div 4 # ((unat a mod 4) * 16 + unat b div 16) #
        ((unat b mod 16) * 4 + unat c div 64) # (unat c mod 64) #
        List.map_filter b64_index (takeWhile (\<lambda>c. c \<noteq> CHR ''='') (toBase64 rest)))"
    by (simp add: fromBase64_def b64_char_not_pad b64_index_char sextet_bounds
        del: sextets_to_bytes.simps)
  also have "\<dots> = a # b # c # fromBase64 (toBase64 rest)"
    by (simp only: sextets_to_bytes.simps first_byte_restored second_byte_restored
        third_byte_restored append.simps fromBase64_def)
  finally show ?case using 4 by simp
qed

section \<open>Store lookups\<close>

text \<open>
  C8. A lookup of an id that the PreKey, SignedPreKey or KyberPreKey store does not hold
  throws the store's not-found error, whatever the decoder of records is, whereas
  \<open>getSession\<close> for an address without a session returns \<open>null\<close> and throws nothing.
\<close>

theorem absent_key_throws_absent_session_is_null:
  "(pks i = None \<longrightarrow>
      getPreKey de1 pks i = Inl (Error (''pre-key '' @ Number_toString i @ '' not found''))) \<and>
   (spks j = None \<longrightarrow>
      getSignedPreKey de2 spks j =
        Inl (Error (''signed pre-key '' @ Number_toString j @ '' not found''))) \<and>
   (kpks k = None \<longrightarrow>
      getKyberPreKey de3 kpks k =
        Inl (Error (''kyber pre-key '' @ Number_toString k @ '' not found''))) \<and>
   (sessions (address_idx a) = None \<longrightarrow> getSession de4 sessions a = Inr None)"
  by (simp add: getPreKey_def getSignedPreKey_def getKyberPreKey_def getSession_def)

theorem absent_key_throws_absent_session_is_null_witness:
  "getPreKey (\<lambda>b. Inr (PreKeyRecord_new 1 (PublicKey b) (PrivateKey b))) [1 \<mapsto> [7]] 2
     = Inl (Error ''pre-key 2 not found'') \<and>
   getSignedPreKey (\<lambda>b. Inr (SignedPreKeyRecord_new 1 0 (PublicKey b) (PrivateKey b) [])) [1 \<mapsto> [7]] 3
     = Inl (Error ''signed pre-key 3 not found'') \<and>
   getKyberPreKey
      (\<lambda>b. Inr (KyberPreKeyRecord_new 1 0 (KEMKeyPair (KEMPublicKey b) (KEMSecretKey b)) []))
      [1 \<mapsto> [7]] 12
     = Inl (Error ''kyber pre-key 12 not found'') \<and>
   getSession (\<lambda>b. Inr b) [''user::1'' \<mapsto> [7]] (ProtocolAddress_new ''assistant'' 1)
     = (Inr None :: error + bytes option)"
proof -
  have idx: "address_idx (ProtocolAddress_new ''assistant'' 1) = ''assistant::1''"
    by code_simp
  have no_session:
    "[''user::1'' \<mapsto> [7::byte]] (address_idx (ProtocolAddress_new ''assistant'' 1)) = None"
    unfolding idx by simp
  have absent: "[(1::nat) \<mapsto> [7::byte]] 2 = None" "[(1::nat) \<mapsto> [7::byte]] 3 = None"
    "[(1::nat) \<mapsto> [7::byte]] 12 = None"
    by simp_all
  have digits: "Number_toString 2 = ''2''" "Number_toString 3 = ''3''" "Number_toString 12 = ''12''"
    by code_simp+
  note inst = absent_key_throws_absent_session_is_null
      [of "[1 \<mapsto> [7]]" 2 "\<lambda>b. Inr (PreKeyRecord_new 1 (PublicKey b) (PrivateKey b))"
          "[1 \<mapsto> [7]]" 3 "\<lambda>b. Inr (SignedPreKeyRecord_new 1 0 (PublicKey b) (PrivateKey b) [])"
          "[1 \<mapsto> [7]]" 12
          "\<lambda>b. Inr (KyberPreKeyRecord_new 1 0 (KEMKeyPair (KEMPublicKey b) (KEMSecretKey b)) [])"
          "[''user::1'' \<mapsto> [7]]" "ProtocolAddress_new ''assistant'' 1" "\<lambda>b. Inr b"]
  have keys:
    "getPreKey (\<lambda>b. Inr (PreKeyRecord_new 1 (PublicKey b) (PrivateKey b))) [1 \<mapsto> [7]] 2
       = Inl (Error ''pre-key 2 not found'')"
    "getSignedPreKey (\<lambda>b. Inr (SignedPreKeyRecord_new 1 0 (PublicKey b) (PrivateKey b) []))
       [1 \<mapsto> [7]] 3 = Inl (Error ''signed pre-key 3 not found'')"
    "getKyberPreKey
       (\<lambda>b. Inr (KyberPreKeyRecord_new 1 0 (KEMKeyPair (KEMPublicKey b) (KEMSecretKey b)) []))
       [1 \<mapsto> [7]] 12 = Inl (Error ''kyber pre-key 12 not found'')"
    using inst absent digits by simp_all
  have sess:
    "getSession (\<lambda>b. Inr b) [''user::1'' \<mapsto> [7]] (ProtocolAddress_new ''assistant'' 1)
       = (Inr None :: error + bytes option)"
    using inst no_session by blast
  show ?thesis using keys sess by blast
qed

section \<open>saveIdentity\<close>

lemma every_byte_equal_refl: "every_byte_equal bs bs"
  by (induction bs) simp_all

lemma every_byte_equal_same_length:
  "length bs = length ns \<Longrightarrow> every_byte_equal bs ns = (bs = ns)"
  by (induction bs ns rule: every_byte_equal.induct) auto

lemma saveIdentity_stores_key: "idKeys (snd (saveIdentity st a key)) (address_idx a) = Some key"
  by (simp add: saveIdentity_def Let_def)

lemma saveIdentity_identical_key:
  "idKeys st (address_idx a) = Some key \<Longrightarrow> fst (saveIdentity st a key) = NewOrUnchanged"
  by (simp add: saveIdentity_def Let_def every_byte_equal_refl)

lemma saveIdentity_different_key:
  "idKeys st (address_idx a) = Some cur
     \<Longrightarrow> length (PublicKey_serialize cur) = length (PublicKey_serialize key)
     \<Longrightarrow> cur \<noteq> key \<Longrightarrow> fst (saveIdentity st a key) = ReplacedExisting"
  by (cases cur; cases key) (simp add: saveIdentity_def Let_def every_byte_equal_same_length)

text \<open>
  C6. The claim says that saving a key for an address with no previously stored key
  yields the New result. In the code \<open>changed\<close> starts as \<open>true\<close> and is only
  recomputed when a key was stored before, so the first key saved for an address in a
  newly constructed store is reported as \<open>ReplacedExisting\<close>.
\<close>

theorem saveIdentity_first_key_reported_replaced:
  "fst (saveIdentity (InMemoryIdentityKeyStore_new (PrivateKey [1, 2, 3]) 42)
          (ProtocolAddress_new ''assistant'' 1) (PublicKey [5, 9, 9]))
     = ReplacedExisting"
  by (simp add: saveIdentity_def InMemoryIdentityKeyStore_new_def Let_def)

section \<open>Durable form of the stores\<close>

lemma SessionStore_roundtrip: "SessionStore_deserialize old (SessionStore_serialize st) = st"
  by (rule ext) (simp add: SessionStore_deserialize_def SessionStore_serialize_def split: option.splits)

lemma KeyStore_roundtrip: "KeyStore_deserialize old (KeyStore_serialize st) = st"
  by (rule ext) (simp add: KeyStore_deserialize_def KeyStore_serialize_def split: option.splits)

lemma IdentityStore_roundtrip:
  "IdentityStore_deserialize old (IdentityStore_serialize st) = old\<lparr>idKeys := idKeys st\<rparr>"
proof -
  have "(\<lambda>key. case map_option (\<lambda>v. toBase64 (PublicKey_serialize v)) (idKeys st key) of
                Some v \<Rightarrow> Some (PublicKey (fromBase64 v)) | None \<Rightarrow> Map.empty key) = idKeys st"
    by (rule ext) (simp split: option.splits)
  then show ?thesis
    by (simp add: IdentityStore_deserialize_def IdentityStore_serialize_def)
qed

lemma deserializeStores_discards_target_maps:
  "deserializeStores d t =
     deserializeStores d
       \<lparr>session = InMemorySessionStore_new,
        identity = InMemoryIdentityKeyStore_new (identityKey (identity t))
                     (localRegistrationId (identity t)),
        preKey = Map.empty, signedPreKey = Map.empty, kyberPreKey = Map.empty\<rparr>"
  by (simp add: deserializeStores_def SessionStore_deserialize_def KeyStore_deserialize_def
      IdentityStore_deserialize_def InMemoryIdentityKeyStore_new_def)

text \<open>
  C9, as the claim states it, fails: \<open>deserializeStores\<close> calls the instance method of
  the identity store, which refills the map of remote identities only. A collection
  serialized with identity key \<open>[1]\<close> and registration id 7 and deserialized into a
  newly constructed collection with identity key \<open>[2]\<close> and registration id 9 is not
  the collection that was serialized: the target keeps its own key and id.
\<close>

theorem deserializeStores_keeps_target_identity_counterexample:
  "deserializeStores
     (serializeStores
        \<lparr>session = Map.empty, identity = InMemoryIdentityKeyStore_new (PrivateKey [1]) 7,
         preKey = Map.empty, signedPreKey = Map.empty, kyberPreKey = Map.empty\<rparr>)
     \<lparr>session = Map.empty, identity = InMemoryIdentityKeyStore_new (PrivateKey [2]) 9,
      preKey = Map.empty, signedPreKey = Map.empty, kyberPreKey = Map.empty\<rparr>
   \<noteq> \<lparr>session = Map.empty, identity = InMemoryIdentityKeyStore_new (PrivateKey [1]) 7,
       preKey = Map.empty, signedPreKey = Map.empty, kyberPreKey = Map.empty\<rparr>
   \<and> getIdentityKey (identity (deserializeStores
         (serializeStores
            \<lparr>session = Map.empty, identity = InMemoryIdentityKeyStore_new (PrivateKey [1]) 7,
             preKey = Map.empty, signedPreKey = Map.empty, kyberPreKey = Map.empty\<rparr>)
         \<lparr>session = Map.empty, identity = InMemoryIdentityKeyStore_new (PrivateKey [2]) 9,
          preKey = Map.empty, signedPreKey = Map.empty, kyberPreKey = Map.empty\<rparr>))
       = PrivateKey [2]
   \<and> getLocalRegistrationId (identity (deserializeStores
         (serializeStores
            \<lparr>session = Map.empty, identity = InMemoryIdentityKeyStore_new (PrivateKey [1]) 7,
             preKey = Map.empty, signedPreKey = Map.empty, kyberPreKey = Map.empty\<rparr>)
         \<lparr>session = Map.empty, identity = InMemoryIdentityKeyStore_new (PrivateKey [2]) 9,
          preKey = Map.empty, signedPreKey = Map.empty, kyberPreKey = Map.empty\<rparr>))
       = 9"
  by (simp add: deserializeStores_def serializeStores_def IdentityStore_deserialize_def
      InMemoryIdentityKeyStore_new_def getIdentityKey_def getLocalRegistrationId_def)

text \<open>
  C9, amended. For every collection \<open>s\<close> and every target \<open>t\<close>, serializing \<open>s\<close> and
  deserializing into \<open>t\<close> gives the session, pre-key, signed pre-key and Kyber pre-key
  maps of \<open>s\<close> and its map of remote identities, whatever \<open>t\<close> held in them; the own
  identity key and registration id of the result are those \<open>t\<close> was constructed with.
  The second part says that, for any durable data, nothing of the target's maps
  survives: the result is the one obtained from a newly constructed target.
\<close>

theorem deserializeStores_serializeStores:
  "deserializeStores (serializeStores s) t =
     s\<lparr>identity := (identity s)\<lparr>localRegistrationId := localRegistrationId (identity t),
                                 identityKey := identityKey (identity t)\<rparr>\<rparr>
   \<and> deserializeStores d t =
       deserializeStores d
         \<lparr>session = InMemorySessionStore_new,
          identity = InMemoryIdentityKeyStore_new (identityKey (identity t))
                       (localRegistrationId (identity t)),
          preKey = Map.empty, signedPreKey = Map.empty, kyberPreKey = Map.empty\<rparr>"
proof
  show "deserializeStores (serializeStores s) t =
     s\<lparr>identity := (identity s)\<lparr>localRegistrationId := localRegistrationId (identity t),
                                 identityKey := identityKey (identity t)\<rparr>\<rparr>"
    by (cases s; cases t)
       (simp add: deserializeStores_def serializeStores_def SessionStore_roundtrip
          KeyStore_roundtrip IdentityStore_roundtrip)
  show "deserializeStores d t =
       deserializeStores d
         \<lparr>session = InMemorySessionStore_new,
          identity = InMemoryIdentityKeyStore_new (identityKey (identity t))
                       (localRegistrationId (identity t)),
          preKey = Map.empty, signedPreKey = Map.empty, kyberPreKey = Map.empty\<rparr>"
    by (rule deserializeStores_discards_target_maps)
qed

section \<open>Durable form of an identity bundle\<close>



section \<open>Arithmetic of doubles\<close>

lemma bit_length_0: "bit_length 0 = 0"
  by (simp add: bit_length.simps)

lemma bit_length_pos: "0 < n \<Longrightarrow> bit_length n = Suc (bit_length (n div 2))"
  by (subst bit_length.simps) simp

lemmas Number_defs = Number_times_def Number_plus_def Math_floor_def Number_integer_def
  Number_round_def bit_length_0 bit_length_pos Let_def

lemma bit_length_le: "n < 2 ^ k \<Longrightarrow> bit_length n \<le> k"
proof (induction n arbitrary: k rule: bit_length.induct)
  case (1 n)
  show ?case
  proof (cases "n = 0")
    case True
    then show ?thesis by (simp add: bit_length_0)
  next
    case False
    then obtain j where k: "k = Suc j" using 1(2) by (cases k) auto
    have "n div 2 < 2 ^ j" using 1(2) k by auto
    then have "bit_length (n div 2) \<le> j" using 1(1) False by blast
    then show ?thesis using False k by (simp add: bit_length_pos)
  qed
qed

text \<open>A value of at most 53 bits above the subnormal range is a double: nothing is rounded.\<close>

lemma Number_round_exact:
  assumes "m < 2 ^ 53" and "- 1074 \<le> e"
  shows "Number_round m e = Number m e"
proof -
  have "bit_length m \<le> 53" using assms(1) by (rule bit_length_le)
  then have "max (bit_length m - 53) (nat (- 1074 - e)) = 0" using assms(2) by simp
  then show ?thesis by (simp add: Number_round_def)
qed

text \<open>
  The rounded product of 16380 and a double \<open>m / 2^k\<close> below 1 stays below 16380: the
  exact product is at least \<open>16380 / 2^k\<close> away from it, and rounding drops at most 14
  bits, so it moves the value by at most \<open>2^13 / 2^k\<close>.
\<close>

lemma rounded_product_below:
  fixes m k :: nat
  assumes mk: "m < 2 ^ k" and m53: "m < 2 ^ 53"
  defines "M \<equiv> m * 16380"
  defines "s \<equiv> bit_length M - 53"
  defines "q \<equiv> M div 2 ^ s"
  defines "r \<equiv> M mod 2 ^ s"
  shows "(if 2 ^ s < 2 * r \<or> (2 * r = 2 ^ s \<and> odd q) then q + 1 else q) * 2 ^ s
           < 16380 * 2 ^ k"
proof -
  have "m + 1 \<le> 2 ^ k" using mk by simp
  then have "(m + 1) * 16380 \<le> 2 ^ k * 16380" by (rule mult_le_mono1)
  then have top: "M + 16380 \<le> 16380 * 2 ^ k" by (simp add: M_def algebra_simps)
  have "M < 2 ^ 53 * 16380" using m53 by (simp add: M_def)
  also have "\<dots> \<le> (2::nat) ^ 67" by simp
  finally have "bit_length M \<le> 67" by (rule bit_length_le)
  then have "s \<le> 14" by (simp add: s_def)
  then have "(2::nat) ^ s \<le> 2 ^ 14" by (simp only: power_increasing_iff rel_simps)
  then have pow: "(2::nat) ^ s \<le> 16384" by simp
  have split: "q * 2 ^ s + r = M" unfolding q_def r_def by (rule div_mult_mod_eq)
  show ?thesis
  proof (cases "2 ^ s < 2 * r \<or> (2 * r = 2 ^ s \<and> odd q)")
    case False
    have "q * 2 ^ s \<le> M" using split by simp
    then have "q * 2 ^ s < 16380 * 2 ^ k" using top by simp
    then show ?thesis by (simp only: False if_False)
  next
    case True
    then have "2 ^ s \<le> 2 * r" by auto
    then have "2 * ((q + 1) * 2 ^ s) \<le> 2 * M + 2 ^ s" using split by (simp add: algebra_simps)
    then have "2 * ((q + 1) * 2 ^ s) < 2 * (16380 * 2 ^ k)" using pow top by simp
    then have "(q + 1) * 2 ^ s < 16380 * 2 ^ k" by simp
    then show ?thesis by (simp only: True if_True)
  qed
qed

lemma registration_id_range:
  assumes "is_Math_random_value r"
  shows "1 \<le> Number_integer (Number_plus (Math_floor (Number_times r (Number 16380 0))) (Number 1 0))
         \<and> Number_integer (Number_plus (Math_floor (Number_times r (Number 16380 0))) (Number 1 0))
             \<le> 16380"
proof -
  obtain m e where r: "r = Number m e" by (cases r)
  define k where "k = nat (- e)"
  have e: "e = - int k" and m53: "m < 2 ^ 53" and mk: "m < 2 ^ k" and elow: "- 1074 \<le> e"
    using assms by (simp_all add: is_Math_random_value_def r k_def)
  define M where "M = m * 16380"
  define s where "s = bit_length M - 53"
  define q' where
    "q' = (if 2 ^ s < 2 * (M mod 2 ^ s) \<or> (2 * (M mod 2 ^ s) = 2 ^ s \<and> odd (M div 2 ^ s))
           then M div 2 ^ s + 1 else M div 2 ^ s)"
  have below: "q' * 2 ^ s < 16380 * 2 ^ k"
    using rounded_product_below [OF mk m53] unfolding q'_def s_def M_def .
  have "max (bit_length M - 53) (nat (- 1074 - e)) = s" using elow by (simp add: s_def)
  then have times: "Number_times r (Number 16380 0) = Number q' (int s - int k)"
    by (simp add: Number_times_def Number_round_def r M_def q'_def e Let_def)
  define F where "F = (if k \<le> s then q' * 2 ^ (s - k) else q' div 2 ^ (k - s))"
  have F: "F < 16380"
  proof (cases "k \<le> s")
    case True
    then have "F * 2 ^ k = q' * 2 ^ s"
      by (simp add: F_def power_add [symmetric])
    then have "F * 2 ^ k < 16380 * 2 ^ k" using below by (simp only:)
    then show ?thesis by (simp only: mult_less_cancel2)
  next
    case False
    then have "F * 2 ^ (k - s) \<le> q'" by (simp add: F_def)
    then have "F * 2 ^ (k - s) * 2 ^ s \<le> q' * 2 ^ s" by (rule mult_le_mono1)
    moreover have "(2::nat) ^ (k - s) * 2 ^ s = 2 ^ k"
      using False by (simp add: power_add [symmetric])
    ultimately have "F * 2 ^ k \<le> q' * 2 ^ s" by (simp add: mult.assoc)
    then have "F * 2 ^ k < 16380 * 2 ^ k" using below by (rule le_less_trans)
    then show ?thesis by (simp only: mult_less_cancel2)
  qed
  then have F53: "F + 1 < 2 ^ 53" by simp
  have "Number_plus (Math_floor (Number q' (int s - int k))) (Number 1 0) = Number (F + 1) 0"
  proof (cases "k \<le> s")
    case True
    then have "nat (int s - int k) = s - k" by simp
    then show ?thesis
      using True F53 by (simp add: Number_plus_def Math_floor_def F_def Number_round_exact)
  next
    case False
    then have "nat (int k - int s) = k - s" by simp
    then show ?thesis
      using False F53 by (simp add: Number_plus_def Math_floor_def F_def Number_round_exact)
  qed
  then have "Number_integer (Number_plus (Math_floor (Number_times r (Number 16380 0))) (Number 1 0))
               = int F + 1"
    by (simp add: times Number_integer_def)
  then show ?thesis using F by simp
qed

text \<open>
  The ids for \<open>Math.random()\<close> = 1/4 and 3/4, for the largest double below 1, and for a
  value whose exact product with 16380 lies just under 1024 and rounds to 1024.
\<close>

lemma registration_id_quarter:
  "Number_integer (Number_plus (Math_floor (Number_times (Number 1 (- 2)) (Number 16380 0)))
      (Number 1 0)) = 4096"
  by (simp add: Number_defs)

lemma registration_id_three_quarters:
  "Number_integer (Number_plus (Math_floor (Number_times (Number 3 (- 2)) (Number 16380 0)))
      (Number 1 0)) = 12286"
  by (simp add: Number_defs)

lemmas registration_id_examples [simp] =
  registration_id_quarter [unfolded One_nat_def]
  registration_id_three_quarters [unfolded One_nat_def]

lemma registration_id_largest:
  "Number_integer (Number_plus (Math_floor
      (Number_times (Number (2 ^ 53 - 1) (- 53)) (Number 16380 0))) (Number 1 0)) = 16380"
  by (simp add: Number_defs)

lemma registration_id_rounded_product:
  "Number_integer (Number_plus (Math_floor
      (Number_times (Number 281543712968705 (- 52)) (Number 16380 0))) (Number 1 0)) = 1025"
  by (simp add: Number_defs)

section \<open>The example session, evaluated\<close>

lemmas rt_defs = Math_random_def Date_now_def PrivateKey_generate_def KEMKeyPair_generate_def
  example_runtime_at_def example_runtime_def

lemmas ref_defs = reference_externals_def ref_getPublicKey_def ref_sign_def pack_def frame_def

lemmas engine_defs = ref_verify_def ref_agree_def ref_encapsulate_def ref_decapsulate_def
  saveSession_def getSession_def saveIdentity_def getIdentityKey_def
  ref_session_serialize_def ref_session_deserialize_def
  ref_signalEncrypt_def ref_signalDecrypt_def ref_signalDecryptPreKey_def ref_open_def
  ref_PreKeySignalMessage_serialize_def ref_PreKeySignalMessage_deserialize_def
  ref_SignalMessage_serialize_def ref_SignalMessage_deserialize_def
  ref_PreKeyRecord_deserialize_def ref_SignedPreKeyRecord_deserialize_def
  ref_KyberPreKeyRecord_deserialize_def
  getPreKey_def getSignedPreKey_def getKyberPreKey_def removePreKey_def markKyberPreKeyUsed_def
  message_key_def seal_def unseal_def TextEncoder_encode_def

lemma nat_bytes_0 [simp]: "nat_bytes 0 = []"
  by (simp add: nat_bytes.simps)

lemma nat_bytes_small [simp]: "0 < n \<Longrightarrow> n < 256 \<Longrightarrow> nat_bytes n = [of_nat n]"
  by (simp add: nat_bytes.simps)

lemma nat_bytes_timestamps [simp]:
  "nat_bytes 2000 = [208, 7]" "nat_bytes 2002 = [210, 7]"
  "nat_bytes 2004 = [212, 7]" "nat_bytes 2006 = [214, 7]"
  by (simp_all add: nat_bytes.simps)

lemma Number_toString_1 [simp]: "Number_toString (Suc 0) = ''1''"
  by code_simp

lemma address_idx_1 [simp]: "address_idx (ProtocolAddress_new n (Suc 0)) = n @ ''::1''"
  by (simp add: address_idx_def)

lemma decode_hello [simp]: "TextDecoder_decode [104, 101, 108, 108, 111] = ''hello''"
  by code_simp

subsection \<open>Creating the identities\<close>

lemma example_user_bundle_created:
  "createIdentityBundle reference_externals example_runtime =
     (example_user_bundle, example_runtime_at 1 2 12 1)"
  by (simp add: createIdentityBundle_def generateRegistrationId_def generatePreKeys.simps
      rt_defs ref_defs Let_def example_user_bundle_def)

lemma example_assistant_bundle_created:
  "createIdentityBundle reference_externals (example_runtime_at 1 2 12 1) =
     (example_assistant_bundle, example_runtime_at 2 4 24 2)"
  by (simp add: createIdentityBundle_def generateRegistrationId_def generatePreKeys.simps
      rt_defs ref_defs Let_def example_assistant_bundle_def)

lemma example_user_stores_populated:
  "populateStores reference_externals example_user_bundle (newStores example_user_bundle)
      (example_runtime_at 2 4 24 2) =
   (example_user_stores\<lparr>session := Map.empty,
       identity := InMemoryIdentityKeyStore_new (PrivateKey [0]) 4096\<rparr>,
    example_runtime_at 2 4 24 3)"
  by (simp add: populateStores_def newStores_def savePreKey_def saveSignedPreKey_def
      saveKyberPreKey_def int_bytes_def InMemorySessionStore_new_def
      InMemoryIdentityKeyStore_new_def rt_defs ref_defs Let_def
      example_user_bundle_def example_user_stores_def)

subsection \<open>What populateStores saves\<close>

lemma populateStores_kyber_record:
  "kyberPreKey (fst (populateStores X b st rt)) (kpk_id (bundle_kyberPreKey b)) =
     Some (KyberPreKeyRecord_serialize X
            (KyberPreKeyRecord_new (kpk_id (bundle_kyberPreKey b))
               (kpk_timestamp (bundle_kyberPreKey b))
               (KEMKeyPair_generate_values rt (KEMKeyPair_generate_calls rt))
               (kpk_signature (bundle_kyberPreKey b))))"
  by (simp add: populateStores_def Let_def KEMKeyPair_generate_def saveKyberPreKey_def)

lemma populateStores_ignores_bundle_kyber_keys:
  "populateStores X (b\<lparr>bundle_kyberPreKey :=
       (bundle_kyberPreKey b)\<lparr>kpk_publicKey := p, kpk_secretKey := q\<rparr>\<rparr>) st rt
     = populateStores X b st rt"
  by (simp add: populateStores_def Let_def KEMKeyPair_generate_def)

text \<open>
  C3. The claim says that the Kyber record saved by \<open>populateStores\<close> is built from the
  bundle's own Kyber key pair. On the code, for every bundle, the record saved under the
  bundle's Kyber id is built from the pair that \<open>KEMKeyPair.generate()\<close> returns inside
  \<open>populateStores\<close>, together with the bundle's id, timestamp and signature; and
  replacing the bundle's Kyber public and secret key by any others changes nothing of
  what \<open>populateStores\<close> does. For the user's bundle of the example, whose Kyber pair is
  \<open>([8, 0], [0])\<close>, the pre-key bundle advertises the public key \<open>[8, 0]\<close> and the
  record read back from the Kyber store holds the pair \<open>([8, 2], [2])\<close>.
\<close>

theorem populateStores_saves_generated_kyber_pair:
  "kyberPreKey (fst (populateStores X b st rt)) (kpk_id (bundle_kyberPreKey b)) =
     Some (KyberPreKeyRecord_serialize X
            (KyberPreKeyRecord_new (kpk_id (bundle_kyberPreKey b))
               (kpk_timestamp (bundle_kyberPreKey b))
               (KEMKeyPair_generate_values rt (KEMKeyPair_generate_calls rt))
               (kpk_signature (bundle_kyberPreKey b))))
   \<and> populateStores X (b\<lparr>bundle_kyberPreKey :=
          (bundle_kyberPreKey b)\<lparr>kpk_publicKey := p, kpk_secretKey := q\<rparr>\<rparr>) st rt
       = populateStores X b st rt
   \<and> kpk_secretKey (bundle_kyberPreKey example_user_bundle) = KEMSecretKey [0]
   \<and> buildPreKeyBundle example_user_bundle =
       Inr (PreKeyBundle_new 4096 1 1 (PublicKey [5, 2]) 1 (PublicKey [5, 1])
              [1, 1, 0, 1, 2, 5, 1] (PublicKey [5, 0]) 1 (KEMPublicKey [8, 0])
              [1, 1, 0, 1, 2, 8, 0])
   \<and> getKyberPreKey ref_KyberPreKeyRecord_deserialize
         (kyberPreKey (fst (populateStores reference_externals example_user_bundle
            (newStores example_user_bundle) (example_runtime_at 2 4 24 2)))) 1 =
       Inr (KyberPreKeyRecord_new 1 1001 (KEMKeyPair (KEMPublicKey [8, 2]) (KEMSecretKey [2]))
              [1, 1, 0, 1, 2, 8, 0])"
proof (intro conjI)
  show "kyberPreKey (fst (populateStores X b st rt)) (kpk_id (bundle_kyberPreKey b)) =
     Some (KyberPreKeyRecord_serialize X
            (KyberPreKeyRecord_new (kpk_id (bundle_kyberPreKey b))
               (kpk_timestamp (bundle_kyberPreKey b))
               (KEMKeyPair_generate_values rt (KEMKeyPair_generate_calls rt))
               (kpk_signature (bundle_kyberPreKey b))))"
    by (rule populateStores_kyber_record)
  show "populateStores X (b\<lparr>bundle_kyberPreKey :=
          (bundle_kyberPreKey b)\<lparr>kpk_publicKey := p, kpk_secretKey := q\<rparr>\<rparr>) st rt
       = populateStores X b st rt"
    by (rule populateStores_ignores_bundle_kyber_keys)
  show "kpk_secretKey (bundle_kyberPreKey example_user_bundle) = KEMSecretKey [0]"
    by (simp add: example_user_bundle_def)
  show "buildPreKeyBundle example_user_bundle =
       Inr (PreKeyBundle_new 4096 1 1 (PublicKey [5, 2]) 1 (PublicKey [5, 1])
              [1, 1, 0, 1, 2, 5, 1] (PublicKey [5, 0]) 1 (KEMPublicKey [8, 0])
              [1, 1, 0, 1, 2, 8, 0])"
    by (simp add: buildPreKeyBundle_def example_user_bundle_def)
  show "getKyberPreKey ref_KyberPreKeyRecord_deserialize
         (kyberPreKey (fst (populateStores reference_externals example_user_bundle
            (newStores example_user_bundle) (example_runtime_at 2 4 24 2)))) 1 =
       Inr (KyberPreKeyRecord_new 1 1001 (KEMKeyPair (KEMPublicKey [8, 2]) (KEMSecretKey [2]))
              [1, 1, 0, 1, 2, 8, 0])"
    by (simp add: example_user_stores_populated getKyberPreKey_def
        ref_KyberPreKeyRecord_deserialize_def bytes_int_def example_user_stores_def)
qed

subsection \<open>Establishing the session and sending the first message\<close>

lemma example_assistant_stores_populated:
  "populateStores reference_externals example_assistant_bundle
      (newStores example_assistant_bundle) (example_runtime_at 2 4 24 3) =
   (example_assistant_stores\<lparr>session := Map.empty,
       identity := InMemoryIdentityKeyStore_new (PrivateKey [12]) 4096\<rparr>,
    example_runtime_at 2 4 24 4)"
  by (simp add: populateStores_def newStores_def savePreKey_def saveSignedPreKey_def
      saveKyberPreKey_def int_bytes_def InMemorySessionStore_new_def
      InMemoryIdentityKeyStore_new_def rt_defs ref_defs Let_def
      example_assistant_bundle_def example_assistant_stores_def)

lemma example_session_established:
  "establishSession reference_externals example_user_bundle example_assistant_bundle
     (example_user_stores\<lparr>session := Map.empty,
        identity := InMemoryIdentityKeyStore_new (PrivateKey [0]) 4096\<rparr>)
     (example_assistant_stores\<lparr>session := Map.empty,
        identity := InMemoryIdentityKeyStore_new (PrivateKey [12]) 4096\<rparr>)
     (example_runtime_at 2 4 24 4)
   = (Inr (), example_user_stores, example_assistant_stores, example_runtime_at 2 4 28 4)"
  by (simp add: establishSession_def buildPreKeyBundle_def ref_processPreKeyBundle_def
      engine_defs InMemoryIdentityKeyStore_new_def rt_defs ref_defs Let_def
      example_user_bundle_def example_assistant_bundle_def
      example_user_stores_def example_assistant_stores_def)

lemma example_session_created:
  "createNewSession reference_externals ''/app/data'' (Some ''llama3.2'') example_runtime =
   (Inr \<lparr>ctx_sessionData = example_session_data, ctx_userStores = example_user_stores,
         ctx_assistantStores = example_assistant_stores\<rparr>,
    (example_runtime_at 2 5 28 4)
      \<lparr>files := [''/app/data/session.json'' \<mapsto> example_session_data]\<rparr>)"
  apply (simp only: createNewSession_def example_user_bundle_created
      example_assistant_bundle_created example_user_stores_populated
      example_assistant_stores_populated example_session_established prod.case sum.case)
  apply (simp add: storage_saveSession_def path_join_def SESSION_FILE_def
      example_session_data_def rt_defs Let_def)
  done

lemma user_message_not_decryptable:
  "(case encryptMessage reference_externals ''hello'' ''assistant'' example_user_stores rt of
      (Inl e, st, rt') \<Rightarrow> False
    | (Inr enc, st, rt') \<Rightarrow>
        er_messageType enc = PreKey \<and>
        fst (decryptMessage reference_externals (er_ciphertext enc) (er_messageType enc)
               ''user'' example_assistant_stores rt') = Inl (Error ''decryption failed''))"
  by (simp add: encryptMessage_def decryptMessage_def engine_defs ref_defs Let_def
      example_user_stores_def example_assistant_stores_def)

lemma assistant_message_not_decryptable:
  "(case encryptMessage reference_externals ''hello'' ''user'' example_assistant_stores rt of
      (Inl e, st, rt') \<Rightarrow> False
    | (Inr enc, st, rt') \<Rightarrow>
        er_messageType enc = PreKey \<and>
        fst (decryptMessage reference_externals (er_ciphertext enc) (er_messageType enc)
               ''assistant'' example_user_stores rt') = Inl (Error ''decryption failed''))"
  by (simp add: encryptMessage_def decryptMessage_def engine_defs ref_defs Let_def
      example_user_stores_def example_assistant_stores_def)

text \<open>
  The same message decrypts to the plaintext once the assistant's Kyber store holds the
  record built from the key pair of the assistant's bundle, the one whose public key the
  user was given.
\<close>

lemma user_message_decrypts_with_bundle_kyber_pair:
  "(case encryptMessage reference_externals ''hello'' ''assistant'' example_user_stores rt of
      (Inl e, st, rt') \<Rightarrow> False
    | (Inr enc, st, rt') \<Rightarrow>
        fst (decryptMessage reference_externals (er_ciphertext enc) (er_messageType enc)
               ''user''
               (example_assistant_stores\<lparr>kyberPreKey :=
                  saveKyberPreKey ref_KyberPreKeyRecord_serialize Map.empty 1
                    (KyberPreKeyRecord_new 1 1003
                       (KEMKeyPair (KEMPublicKey [8, 1]) (KEMSecretKey [1]))
                       [1, 1, 12, 1, 2, 8, 1])\<rparr>) rt') = Inr ''hello'')"
  by (simp add: encryptMessage_def decryptMessage_def engine_defs ref_defs Let_def
      saveKyberPreKey_def int_bytes_def example_user_stores_def example_assistant_stores_def)

text \<open>
  With these stores the handshake message of the user decrypts; it is the message
  \<open>example_handshake_message\<close>, and deserializing the durable form of the stores taken
  before the decryption into the stores after it gives the stores before it.
\<close>

lemma example_handshake_decrypts:
  "decryptMessage reference_externals (fromBase64 (emr_ciphertext example_user_record)) PreKey
      ''user'' example_consistent_assistant_stores rt
   = (Inr ''hello'', example_assistant_stores_after_handshake, rt)"
  by (simp add: decryptMessage_def engine_defs ref_defs Let_def example_user_record_def
      example_consistent_assistant_stores_def example_assistant_stores_after_handshake_def
      example_assistant_stores_def del: toBase64.simps)

lemma example_handshake_message_decoded:
  "ref_PreKeySignalMessage_deserialize (fromBase64 (emr_ciphertext example_user_record))
     = Inr example_handshake_message"
  by (simp add: engine_defs ref_defs example_user_record_def example_handshake_message_def
      del: toBase64.simps)

lemma example_restored_stores:
  "deserializeStores (serializeStores example_consistent_assistant_stores)
      example_assistant_stores_after_handshake = example_consistent_assistant_stores"
  by (simp add: deserializeStores_def serializeStores_def SessionStore_roundtrip
      KeyStore_roundtrip IdentityStore_roundtrip example_assistant_stores_after_handshake_def
      example_consistent_assistant_stores_def example_assistant_stores_def)

text \<open>
  C1. The claim says that on every freshly created session a message encrypted by one
  party decrypts to the plaintext with the other party's stores. With the reference
  engine, on the session that \<open>createNewSession\<close> creates in the example runtime, the
  first message of the user is a handshake message that the assistant's stores do not
  decrypt, and the first message of the assistant is one that the user's stores do not
  decrypt: the KEM secret was encapsulated for the Kyber public key of the receiver's
  bundle, and the receiver's Kyber store holds another pair.
\<close>

theorem fresh_session_first_message_not_decryptable:
  "(case createNewSession reference_externals ''/app/data'' (Some ''llama3.2'') example_runtime of
      (Inl e, rt) \<Rightarrow> False
    | (Inr ctx, rt) \<Rightarrow>
        (case encryptMessage reference_externals ''hello'' ''assistant'' (ctx_userStores ctx) rt of
           (Inl e, st, rt') \<Rightarrow> False
         | (Inr enc, st, rt') \<Rightarrow>
             er_messageType enc = PreKey \<and>
             fst (decryptMessage reference_externals (er_ciphertext enc) (er_messageType enc)
                    ''user'' (ctx_assistantStores ctx) rt') = Inl (Error ''decryption failed''))
        \<and>
        (case encryptMessage reference_externals ''hello'' ''user'' (ctx_assistantStores ctx) rt of
           (Inl e, st, rt') \<Rightarrow> False
         | (Inr enc, st, rt') \<Rightarrow>
             er_messageType enc = PreKey \<and>
             fst (decryptMessage reference_externals (er_ciphertext enc) (er_messageType enc)
                    ''assistant'' (ctx_userStores ctx) rt') = Inl (Error ''decryption failed'')))"
  using user_message_not_decryptable assistant_message_not_decryptable
  by (simp only: example_session_created prod.case sum.case SessionContext.simps)

section \<open>The Kyber pre-key after a restart\<close>



text \<open>
  When the library throws on an identity key of the persisted stores, the error is logged
  and \<open>restoreSession\<close> returns \<open>null\<close>; the two bundles were deserialized before,
  which took four generated KEM pairs.
\<close>

lemma restoreSession_catches_deserialize_error:
  assumes "files rt (path_join dataDir SESSION_FILE) = Some sd"
    and "deserializeStores_error X (userStores sd) = Some err
         \<or> (deserializeStores_error X (userStores sd) = None
            \<and> deserializeStores_error X (assistantStores sd) = Some err)"
  shows "restoreSession X dataDir rt =
           (None,
            console_error ''Failed to restore session stores, creating new session:'' (Some err)
              (rt\<lparr>KEMKeyPair_generate_calls := Suc (Suc (Suc (Suc (KEMKeyPair_generate_calls rt))))\<rparr>))"
  using assms
  by (auto simp: restoreSession_def storage_loadSession_def deserializeIdentityBundle_def
      KEMKeyPair_generate_def split: prod.splits)






section \<open>One-time pre-keys\<close>

lemma step_keeps_absent:
  "st i = None \<Longrightarrow> \<not> inserts_id i op \<Longrightarrow> PreKeyStore_step ser st op i = None"
  by (cases op) (auto simp: savePreKey_def removePreKey_def KeyStore_deserialize_def)

lemma steps_keep_absent:
  "st i = None \<Longrightarrow> \<forall>op \<in> set ops. \<not> inserts_id i op
     \<Longrightarrow> foldl (PreKeyStore_step ser) st ops i = None"
  by (induction ops arbitrary: st) (simp_all add: step_keeps_absent)

text \<open>
  \<open>decryptMessage\<close> hands the stores to the library, and it is the library that calls
  \<open>removePreKey\<close>. With the reference engine, a handshake decrypt that succeeds and was
  not answered from a session stored earlier for the same handshake leaves the pre-key
  store with the pre-key of the message removed.
\<close>

lemma ref_signalDecryptPreKey_consumes:
  assumes "ref_signalDecryptPreKey m address stores rt = (Inr p, stores', rt')"
    and "\<forall>s. getSession ref_session_deserialize (session stores) address = Inr (Some s)
           \<longrightarrow> rs_initiator s \<or> rs_baseKey s \<noteq> PublicKey_serialize (pm_baseKey m)"
  shows "preKey stores' = removePreKey (preKey stores) (pm_preKeyId m)"
  using assms
  by (auto simp: ref_signalDecryptPreKey_def Let_def
      split: sum.splits option.splits if_splits prod.splits PreKeyRecord.splits
        SignedPreKeyRecord.splits)

lemma decryptMessage_handshake:
  assumes "decryptMessage reference_externals ciphertext PreKey senderName stores rt
             = (Inr plaintext, stores', rt')"
  shows "\<exists>m p. ref_PreKeySignalMessage_deserialize ciphertext = Inr m \<and>
           ref_signalDecryptPreKey m (ProtocolAddress_new senderName 1) stores rt = (Inr p, stores', rt')"
  using assms
  by (auto simp: decryptMessage_def reference_externals_def Let_def
      split: sum.splits prod.splits)

text \<open>
  C5, as the claim states it, fails: operations of the layer do put a consumed pre-key
  back. The assistant's stores decrypt the handshake message of the user, which names the
  one-time pre-key 1: before the decrypt pre-key 1 is readable, after it reading it throws
  the not-found error. Deserializing the durable form of the stores taken before the
  decrypt (what a restart does with the persisted stores) into these stores makes
  pre-key 1 readable again, and the same handshake message decrypts a second time; a
  \<open>savePreKey\<close> for the id puts it back as well.
\<close>

theorem consumed_pre_key_reinserted_counterexample:
  "(case decryptMessage reference_externals (fromBase64 (emr_ciphertext example_user_record))
           PreKey ''user'' example_consistent_assistant_stores example_runtime of
      (r, st, rt) \<Rightarrow>
        r = Inr ''hello'' \<and>
        getPreKey ref_PreKeyRecord_deserialize (preKey example_consistent_assistant_stores) 1
          = Inr (PreKeyRecord_new 1 (PublicKey [5, 14]) (PrivateKey [14])) \<and>
        getPreKey ref_PreKeyRecord_deserialize (preKey st) 1
          = Inl (Error ''pre-key 1 not found'') \<and>
        getPreKey ref_PreKeyRecord_deserialize
           (preKey (deserializeStores (serializeStores example_consistent_assistant_stores) st)) 1
          = Inr (PreKeyRecord_new 1 (PublicKey [5, 14]) (PrivateKey [14])) \<and>
        fst (decryptMessage reference_externals (fromBase64 (emr_ciphertext example_user_record))
               PreKey ''user''
               (deserializeStores (serializeStores example_consistent_assistant_stores) st) rt)
          = Inr ''hello'' \<and>
        getPreKey ref_PreKeyRecord_deserialize
           (savePreKey ref_PreKeyRecord_serialize (preKey st) 1
              (PreKeyRecord_new 1 (PublicKey [5, 14]) (PrivateKey [14]))) 1
          = Inr (PreKeyRecord_new 1 (PublicKey [5, 14]) (PrivateKey [14])))"
  apply (simp only: example_handshake_decrypts prod.case example_restored_stores fst_conv)
  apply (simp add: getPreKey_def savePreKey_def ref_PreKeyRecord_deserialize_def
      example_assistant_stores_after_handshake_def example_consistent_assistant_stores_def
      example_assistant_stores_def pack_def frame_def)
  done

text \<open>
  C5, amended. For every handshake message \<open>m\<close> whose decrypt succeeds and consumes
  the one-time pre-key it names (the session stored for the sender, if there is one, does
  not answer this handshake already), the pre-key store after the decrypt is the store
  before it with that pre-key removed; \<open>getPreKey\<close> of its id throws the not-found
  error, and it keeps throwing it after any sequence of store operations none of which
  is a \<open>savePreKey\<close> for the id or a \<open>deserialize\<close> of data that holds the id.
\<close>

theorem handshake_decrypt_removes_pre_key:
  assumes "decryptMessage reference_externals ciphertext PreKey senderName stores rt
             = (Inr plaintext, stores', rt')"
    and "ref_PreKeySignalMessage_deserialize ciphertext = Inr m"
    and "\<forall>s. getSession ref_session_deserialize (session stores) (ProtocolAddress_new senderName 1)
               = Inr (Some s)
           \<longrightarrow> rs_initiator s \<or> rs_baseKey s \<noteq> PublicKey_serialize (pm_baseKey m)"
  shows "preKey stores' = removePreKey (preKey stores) (pm_preKeyId m) \<and>
         getPreKey de (preKey stores') (pm_preKeyId m) =
           Inl (Error (''pre-key '' @ Number_toString (pm_preKeyId m) @ '' not found'')) \<and>
         ((\<forall>op \<in> set ops. \<not> inserts_id (pm_preKeyId m) op) \<longrightarrow>
            getPreKey de (foldl (PreKeyStore_step ser) (preKey stores') ops) (pm_preKeyId m) =
              Inl (Error (''pre-key '' @ Number_toString (pm_preKeyId m) @ '' not found'')))"
proof -
  from decryptMessage_handshake [OF assms(1)] assms(2)
  obtain p where "ref_signalDecryptPreKey m (ProtocolAddress_new senderName 1) stores rt
      = (Inr p, stores', rt')"
    by auto
  then have removed: "preKey stores' = removePreKey (preKey stores) (pm_preKeyId m)"
    using assms(3) by (rule ref_signalDecryptPreKey_consumes)
  then have absent: "preKey stores' (pm_preKeyId m) = None"
    by (simp add: removePreKey_def)
  show ?thesis
    using removed absent steps_keep_absent [of "preKey stores'" "pm_preKeyId m" ops ser]
    by (auto simp: getPreKey_def)
qed

theorem handshake_decrypt_removes_pre_key_witness:
  "decryptMessage reference_externals (fromBase64 (emr_ciphertext example_user_record)) PreKey
      ''user'' example_consistent_assistant_stores example_runtime
     = (Inr ''hello'', example_assistant_stores_after_handshake, example_runtime) \<and>
   ref_PreKeySignalMessage_deserialize (fromBase64 (emr_ciphertext example_user_record))
     = Inr example_handshake_message \<and>
   pm_preKeyId example_handshake_message = 1 \<and>
   map_sum id (map_option rs_initiator)
      (getSession ref_session_deserialize (session example_consistent_assistant_stores)
         (ProtocolAddress_new ''user'' 1)) = Inr (Some True) \<and>
   preKey example_assistant_stores_after_handshake
     = removePreKey (preKey example_consistent_assistant_stores) 1 \<and>
   getPreKey ref_PreKeyRecord_deserialize (preKey example_assistant_stores_after_handshake) 1
     = Inl (Error ''pre-key 1 not found'') \<and>
   getPreKey ref_PreKeyRecord_deserialize
     (foldl (PreKeyStore_step ref_PreKeyRecord_serialize)
        (preKey example_assistant_stores_after_handshake)
        [GetPreKey 1, SavePreKey 11 (PreKeyRecord_new 11 (PublicKey [5, 40]) (PrivateKey [40])),
         RemovePreKey 2, SerializeStore, DeserializeStore [3 \<mapsto> ''AQID'']]) 1
     = Inl (Error ''pre-key 1 not found'')"
proof -
  let ?ops = "[GetPreKey 1,
               SavePreKey 11 (PreKeyRecord_new 11 (PublicKey [5, 40]) (PrivateKey [40])),
               RemovePreKey 2, SerializeStore, DeserializeStore [3 \<mapsto> ''AQID'']]"
  have id1: "pm_preKeyId example_handshake_message = 1"
    by (simp add: example_handshake_message_def)
  have sess: "getSession ref_session_deserialize (session example_consistent_assistant_stores)
         (ProtocolAddress_new ''user'' 1)
      = Inr (Some \<lparr>rs_rootKey =
          [1, 6, 1, 1, 1, 1, 1, 12, 1, 6, 1, 1, 0, 1, 1, 26, 1, 6, 1, 1, 1,
           1, 1, 26, 1, 6, 1, 1, 2, 1, 1, 26, 1, 1, 27],
          rs_initiator = True, rs_sendCounter = 0, rs_recvCounter = 0,
          rs_baseKey = [5, 26],
          rs_pending = Some (1, 1, 1, [1, 2, 8, 0, 1, 1, 27])\<rparr>)"
    by (simp add: engine_defs ref_defs example_consistent_assistant_stores_def
        example_assistant_stores_def)
  have first: "\<forall>s. getSession ref_session_deserialize (session example_consistent_assistant_stores)
         (ProtocolAddress_new ''user'' 1) = Inr (Some s)
           \<longrightarrow> rs_initiator s \<or> rs_baseKey s \<noteq> PublicKey_serialize (pm_baseKey example_handshake_message)"
    unfolding sess by auto
  have digit: "''pre-key '' @ Number_toString 1 @ '' not found'' = ''pre-key 1 not found''"
    by code_simp
  note inst = handshake_decrypt_removes_pre_key
      [OF example_handshake_decrypts example_handshake_message_decoded first,
       of ref_PreKeyRecord_deserialize ?ops ref_PreKeyRecord_serialize,
       unfolded id1 digit]
  have ops: "\<forall>op \<in> set ?ops. \<not> inserts_id 1 op"
    by simp
  have init: "map_sum id (map_option rs_initiator)
      (getSession ref_session_deserialize (session example_consistent_assistant_stores)
         (ProtocolAddress_new ''user'' 1)) = Inr (Some True)"
    unfolding sess by simp
  show ?thesis
    using example_handshake_decrypts [of example_runtime] example_handshake_message_decoded id1
      init inst [THEN conjunct1] inst [THEN conjunct2, THEN conjunct1]
      inst [THEN conjunct2, THEN conjunct2, THEN mp, OF ops]
    by (intro conjI)
qed


section \<open>Registration ids\<close>

lemma createIdentityBundle_registrationId:
  "registrationId (fst (createIdentityBundle X rt)) =
     Number_integer
       (Number_plus
          (Math_floor (Number_times (Math_random_values rt (Math_random_calls rt)) (Number 16380 0)))
          (Number 1 0))"
  by (simp add: createIdentityBundle_def generateRegistrationId_def Math_random_def
      PrivateKey_generate_def Let_def split: prod.splits)

text \<open>
  C10, as the claim states it, fails: the registration id is not selected with the secure
  generator. With the same keys from the secure generator, a creation whose
  \<open>Math.random()\<close> returns 1/4 has the registration id 4096 and one whose
  \<open>Math.random()\<close> returns 3/4 has 12286; and with other keys from the secure generator
  and the same \<open>Math.random()\<close> the registration id is the same.
\<close>

theorem registration_id_follows_Math_random_counterexample:
  "registrationId (fst (createIdentityBundle reference_externals example_runtime)) = 4096
   \<and> registrationId (fst (createIdentityBundle reference_externals
          (example_runtime\<lparr>Math_random_values := (\<lambda>n. Number 3 (- 2))\<rparr>))) = 12286
   \<and> registrationId (fst (createIdentityBundle reference_externals
          (example_runtime
             \<lparr>PrivateKey_generate_values := (\<lambda>n. PrivateKey [of_nat n, 9]),
              KEMKeyPair_generate_values :=
                (\<lambda>n. KEMKeyPair (KEMPublicKey [8, 9]) (KEMSecretKey [9]))\<rparr>)))
       = 4096"
  by (simp add: createIdentityBundle_registrationId example_runtime_def)

text \<open>
  C10, amended. Every registration id produced by \<open>createIdentityBundle\<close> is
  \<open>Math.floor(r * 16380) + 1\<close>, computed in the arithmetic of doubles, for the value
  \<open>r\<close> that \<open>Math.random()\<close> returns; it lies in the closed range from 1 to 16380
  whenever \<open>r\<close> is a double that is at least 0 and less than 1, and it does not depend
  on what the secure generator of the key material returns.
\<close>

theorem registration_id_in_range_from_Math_random:
  "registrationId (fst (createIdentityBundle X rt)) =
     Number_integer
       (Number_plus
          (Math_floor (Number_times (Math_random_values rt (Math_random_calls rt)) (Number 16380 0)))
          (Number 1 0)) \<and>
   (is_Math_random_value (Math_random_values rt (Math_random_calls rt)) \<longrightarrow>
      1 \<le> registrationId (fst (createIdentityBundle X rt)) \<and>
      registrationId (fst (createIdentityBundle X rt)) \<le> 16380) \<and>
   registrationId (fst (createIdentityBundle X
        (rt\<lparr>PrivateKey_generate_values := ks, KEMKeyPair_generate_values := ps\<rparr>))) =
     registrationId (fst (createIdentityBundle X rt))"
  using registration_id_range [of "Math_random_values rt (Math_random_calls rt)"]
  by (simp add: createIdentityBundle_registrationId)

theorem registration_id_in_range_from_Math_random_witness:
  "is_Math_random_value (Number 1 (- 2)) \<and>
   registrationId (fst (createIdentityBundle reference_externals example_runtime)) = 4096 \<and>
   (1::int) \<le> 4096 \<and> (4096::int) \<le> 16380"
proof -
  have r: "Math_random_values example_runtime (Math_random_calls example_runtime) = Number 1 (- 2)"
    by (simp add: example_runtime_def)
  have v: "is_Math_random_value (Number 1 (- 2))"
    by (simp add: is_Math_random_value_def)
  show ?thesis
    using registration_id_in_range_from_Math_random [of reference_externals example_runtime] r v
    by simp
qed

section \<open>Restoring the message history\<close>

lemma toBase64_eq_iff [simp]: "toBase64 a = toBase64 b \<longleftrightarrow> a = b"
  by (metis fromBase64_toBase64)

lemma decryptRecords_counts:
  "decryptRecords X rs d f u a rt = (d', f', u', a', rt')
     \<Longrightarrow> length d' + f' = length d + f + length rs"
proof (induction rs arbitrary: d f u a rt)
  case Nil
  then show ?case by simp
next
  case (Cons r rs)
  then show ?case
    by (auto simp: Let_def split: prod.splits sum.splits if_splits)
qed

text \<open>
  The loop goes through every record: what it does on a history is what it does on a
  first part of it, followed by what it does on the rest from the state reached.
\<close>

lemma decryptRecords_append:
  "decryptRecords X (rs1 @ rs2) d f u a rt =
     (case decryptRecords X rs1 d f u a rt of
        (d1, f1, u1, a1, rt1) \<Rightarrow> decryptRecords X rs2 d1 f1 u1 a1 rt1)"
  by (induction rs1 arbitrary: d f u a rt)
     (simp_all add: Let_def split: prod.splits sum.splits)

text \<open>
  Let the loop over the persisted records end with the list \<open>decrypted\<close>, the count
  \<open>failedCount\<close> and the stores \<open>userSt\<close>, \<open>assistantSt\<close>. The decrypted
  messages and the counted failures add up to the persisted records. If the list is
  non-empty and nothing decrypted, and the session file can be written, then the message
  list of the session data and the displayed list are empty, the error
  \<open>Session corrupted...\<close> is set, the identities and the assistant's durable stores in
  the session data and both in-memory collections are what they were (the user's durable
  stores are re-serialized from the in-memory ones, the model becomes the current one),
  and nothing else ran: the runtime differs by the log line and the written file only, so
  no new session was created. If something decrypted, the displayed list is the decrypted
  messages, the session data and the error are unchanged.
\<close>

lemma loadMessages_after_decryptRecords:
  "decryptRecords X (messages (cv_sessionData v)) [] 0 (cv_userStores v) (cv_assistantStores v) rt
      = (decrypted, failedCount, userSt, assistantSt, rt1) \<Longrightarrow>
   length decrypted + failedCount = length (messages (cv_sessionData v)) \<and>
   (messages (cv_sessionData v) \<noteq> [] \<and> decrypted = [] \<and>
    write_error rt1 (path_join dataDir SESSION_FILE) = None \<longrightarrow>
      loadMessages X dataDir modelProp v rt =
        (Inr (),
         v\<lparr>cv_sessionData :=
              (cv_sessionData v)\<lparr>model := modelProp, messages := [],
                                  userStores := serializeStores userSt\<rparr>,
           cv_userStores := userSt, cv_assistantStores := assistantSt,
           cv_messages := [],
           cv_error := Some ''Session corrupted. Message history cleared. Starting fresh.''\<rparr>,
         (console_error ''Session appears corrupted, clearing message history'' None rt1)
           \<lparr>files := (files rt1)(path_join dataDir SESSION_FILE \<mapsto>
                (cv_sessionData v)\<lparr>model := modelProp, messages := [],
                                    userStores := serializeStores userSt\<rparr>)\<rparr>)) \<and>
   (decrypted \<noteq> [] \<longrightarrow>
      loadMessages X dataDir modelProp v rt =
        (Inr (), v\<lparr>cv_userStores := userSt, cv_assistantStores := assistantSt,
                   cv_messages := decrypted\<rparr>, rt1))"
proof -
  assume run: "decryptRecords X (messages (cv_sessionData v)) [] 0 (cv_userStores v)
      (cv_assistantStores v) rt = (decrypted, failedCount, userSt, assistantSt, rt1)"
  have count: "length decrypted + failedCount = length (messages (cv_sessionData v))"
    using decryptRecords_counts [OF run] by simp
  have corrupted: "messages (cv_sessionData v) \<noteq> [] \<and> decrypted = [] \<and>
    write_error rt1 (path_join dataDir SESSION_FILE) = None \<longrightarrow>
      loadMessages X dataDir modelProp v rt =
        (Inr (),
         v\<lparr>cv_sessionData :=
              (cv_sessionData v)\<lparr>model := modelProp, messages := [],
                                  userStores := serializeStores userSt\<rparr>,
           cv_userStores := userSt, cv_assistantStores := assistantSt,
           cv_messages := [],
           cv_error := Some ''Session corrupted. Message history cleared. Starting fresh.''\<rparr>,
         (console_error ''Session appears corrupted, clearing message history'' None rt1)
           \<lparr>files := (files rt1)(path_join dataDir SESSION_FILE \<mapsto>
                (cv_sessionData v)\<lparr>model := modelProp, messages := [],
                                    userStores := serializeStores userSt\<rparr>)\<rparr>)"
    using count
    by (auto simp: loadMessages_def run updateSessionMessages_def storage_saveSession_def
        console_error_def Let_def)
  have partial: "decrypted \<noteq> [] \<longrightarrow>
      loadMessages X dataDir modelProp v rt =
        (Inr (), v\<lparr>cv_userStores := userSt, cv_assistantStores := assistantSt,
                   cv_messages := decrypted\<rparr>, rt1)"
    by (simp add: loadMessages_def run)
  show ?thesis using count corrupted partial by blast
qed

text \<open>
  On the session that \<open>createNewSession\<close> creates in the example runtime the record of
  the user's first message does not decrypt; a record whose ciphertext is no message
  fails with any stores; and with the assistant's stores that hold the Kyber pair of the
  assistant's bundle, the history of this record followed by the user's record restores
  the user's message: the failure of the first record is logged and counted and the loop
  goes on.
\<close>

lemma example_history_all_fail:
  "decryptRecords reference_externals [example_user_record] [] 0
      example_user_stores example_assistant_stores rt
   = ([], 1, example_user_stores, example_assistant_stores,
      console_error ''Failed to decrypt message:'' (Some (Error ''decryption failed'')) rt)"
  by (simp add: decryptMessage_def engine_defs ref_defs Let_def example_user_record_def
      example_assistant_stores_def del: toBase64.simps)

lemma example_garbled_fails:
  "decryptMessage reference_externals (fromBase64 (emr_ciphertext example_garbled_record))
      Whisper ''assistant'' stores rt = (Inl (Error ''invalid SignalMessage''), stores, rt)"
  by (simp add: decryptMessage_def engine_defs ref_defs Let_def example_garbled_record_def
      del: toBase64.simps)

lemma example_history_failure_then_success:
  "decryptRecords reference_externals [example_garbled_record, example_user_record] [] 0
      example_user_stores example_consistent_assistant_stores rt
   = ([\<lparr>cm_id = ''1005-4fzyo82mv'', cm_role = user, cm_content = ''hello'',
        cm_timestamp = 1006\<rparr>], 1, example_user_stores,
      example_assistant_stores_after_handshake,
      console_error ''Failed to decrypt message:'' (Some (Error ''invalid SignalMessage'')) rt)"
proof -
  have g: "emr_sender example_garbled_record = assistant"
      "emr_messageType example_garbled_record = Whisper"
    by (simp_all add: example_garbled_record_def)
  have u: "emr_sender example_user_record = user" "emr_messageType example_user_record = PreKey"
      "emr_id example_user_record = ''1005-4fzyo82mv''" "emr_timestamp example_user_record = 1006"
    by (simp_all add: example_user_record_def)
  show ?thesis
    by (simp add: g u example_garbled_fails example_handshake_decrypts Let_def
        del: toBase64.simps)
qed


text \<open>
  With a session file that can be written the same history ends with the error set, the
  displayed list and the persisted list empty and the identities and stores as they
  were; and the history that starts with the garbled record is restored up to the record
  that fails.
\<close>

lemma example_corrupted_history_writable:
  "(case loadMessages reference_externals ''/app/data'' ''llama3.2''
           (ChatView_initial (example_session_data\<lparr>messages := [example_user_record]\<rparr>)
              example_user_stores example_assistant_stores)
           ((example_runtime_at 2 5 28 4)
              \<lparr>files := [''/app/data/session.json'' \<mapsto>
                          example_session_data\<lparr>messages := [example_user_record]\<rparr>]\<rparr>) of
      (r, v, rt) \<Rightarrow>
        r = Inr () \<and>
        cv_error v = Some ''Session corrupted. Message history cleared. Starting fresh.'' \<and>
        cv_messages v = [] \<and>
        cv_sessionData v = example_session_data \<and>
        cv_userStores v = example_user_stores \<and>
        cv_assistantStores v = example_assistant_stores \<and>
        files rt ''/app/data/session.json'' = Some example_session_data)"
  by (simp add: loadMessages_def ChatView_initial_def example_history_all_fail
      updateSessionMessages_def storage_saveSession_def console_error_def Let_def
      path_join_def SESSION_FILE_def example_runtime_at_def example_runtime_def
      example_session_data_def
      del: decryptRecords.simps toBase64.simps)

lemma example_partly_restored_history:
  "(case loadMessages reference_externals ''/app/data'' ''llama3.2''
           (ChatView_initial
              (example_session_data\<lparr>messages := [example_garbled_record, example_user_record]\<rparr>)
              example_user_stores example_consistent_assistant_stores)
           (example_runtime_at 2 5 28 4) of
      (r, v, rt) \<Rightarrow>
        r = Inr () \<and>
        cv_error v = None \<and>
        cv_messages v =
          [\<lparr>cm_id = ''1005-4fzyo82mv'', cm_role = user, cm_content = ''hello'',
            cm_timestamp = 1006\<rparr>] \<and>
        messages (cv_sessionData v) = [example_garbled_record, example_user_record] \<and>
        console_errors rt =
          [(''Failed to decrypt message:'', Some (Error ''invalid SignalMessage''))])"
  by (simp add: loadMessages_def ChatView_initial_def example_history_failure_then_success
      console_error_def Let_def example_runtime_at_def example_runtime_def
      del: decryptRecords.simps toBase64.simps)


section \<open>Persisting after a message exchange\<close>

lemma updateSessionMessages_writes_user_stores_only:
  "userStores (fst (snd (updateSessionMessages dataDir sd stores rt))) = serializeStores stores \<and>
   assistantStores (fst (snd (updateSessionMessages dataDir sd stores rt))) = assistantStores sd"
  by (simp add: updateSessionMessages_def Let_def split: prod.splits)

lemma handleSubmit_durable_assistantStores:
  "assistantStores (cv_sessionData (fst (handleSubmit X dataDir v rt)))
     = assistantStores (cv_sessionData v)"
  by (simp add: handleSubmit_def updateSessionMessages_def Let_def
      split: prod.splits sum.splits)

text \<open>
  C2. The claim says that the persistence step re-serializes the in-memory state of both
  parties' collections. On the code, \<open>handleSubmit\<close> of the input \<open>hello\<close> on the
  example session succeeds, appends the user's and the assistant's record and writes the
  session file; the durable user stores are then the serialization of the in-memory user
  stores, but the durable assistant stores are still the serialization taken when the
  session was created, and the durable state of the assistant's session with the user is
  not the in-memory one, which the encryption of the response advanced.
\<close>

theorem handleSubmit_leaves_assistant_stores_stale:
  "(case handleSubmit reference_externals ''/app/data''
           (example_view\<lparr>cv_input := '' hello ''\<rparr>) (example_runtime_at 2 5 28 4) of
      (v', rt') \<Rightarrow>
        cv_error v' = None \<and>
        map emr_sender (messages (cv_sessionData v')) = [user, assistant] \<and>
        files rt' ''/app/data/session.json'' = Some (cv_sessionData v') \<and>
        userStores (cv_sessionData v') = serializeStores (cv_userStores v') \<and>
        assistantStores (cv_sessionData v') = serializeStores example_assistant_stores \<and>
        ser_session (assistantStores (cv_sessionData v')) ''user::1''
          \<noteq> ser_session (serializeStores (cv_assistantStores v')) ''user::1'')"
  by (simp add: handleSubmit_def updateSessionMessages_def storage_saveSession_def
      generateId_def encryptMessage_def engine_defs ref_defs rt_defs Let_def
      path_join_def SESSION_FILE_def ref_trim_def is_space_def
      example_view_def ChatView_initial_def example_session_data_def
      serializeStores_def SessionStore_serialize_def
      example_user_stores_def example_assistant_stores_def
      del: toBase64.simps)

end
